theory Spec2Isabelle
  imports Main
begin

section \<open>Data model\<close>

text \<open>
  The two interface modules (\<^verbatim>\<open>pennylane/interfaces/autograd.py\<close> and
  \<^verbatim>\<open>pennylane/interfaces/jax.py\<close>) orchestrate collaborators that live elsewhere:
  the backend \<^verbatim>\<open>execute_fn\<close>, the gradient rule \<^verbatim>\<open>gradient_fn\<close>, the batch VJP/JVP
  builders and the contraction rules. The embedding translates the functions of the two
  modules and takes every collaborator as a field of the record \<open>env\<close> below, as a total
  function. Exceptions raised by the two modules themselves are values of type \<open>error\<close>;
  Python's own \<^verbatim>\<open>IndexError\<close>, \<^verbatim>\<open>TypeError\<close>, \<^verbatim>\<open>ValueError\<close> and \<^verbatim>\<open>UnboundLocalError\<close>
  are values too. Numeric scalars are a type parameter \<open>'a\<close>.
\<close>

datatype error =
    InterfaceUnsupportedError string
  | IndexError
  | TypeError
  | ValueError
  | UnboundLocalError

datatype mp_class = CountsMP | ProbabilityMP | SampleMP | ExpectationMP | VarianceMP | StateMP

record measurement =
  mp_class :: mp_class
  wires :: "nat list"

text \<open>A tape parameter is a concrete number or a value carried by a tracer (box) of the host
  AD engine.\<close>

datatype 'a param = Numeric 'a | Tracer 'a

record 'a tape =
  data :: "'a param list"
  trainable_params :: "nat list"
  measurements :: "measurement list"
  batch_size :: "nat option"
  output_dim :: nat
  has_partitioned_shots :: bool
  shot_vector :: "nat list"

type_synonym kwargs = "(string \<times> string) list"

text \<open>A device is of the experimental class or a legacy device, whose \<^verbatim>\<open>shot_vector\<close>
  attribute is \<^verbatim>\<open>None\<close> or a list.\<close>

datatype device = ExperimentalDevice | LegacyDevice "nat list option"

text \<open>The \<^verbatim>\<open>shots\<close> keyword of a gradient transform: not passed, or passed (possibly as
  \<^verbatim>\<open>None\<close>).\<close>

datatype shots_kw = NoShotsKw | ShotsKw "nat list option"

text \<open>Raw results of the backend: a counts dictionary, a numpy array (with the flag
  \<^verbatim>\<open>dtype == object\<close>), a tuple, a list, or any other object.\<close>

datatype 'a result =
    Dict "(string \<times> nat) list"
  | NdArray bool "'a list"
  | PyTuple "'a result list"
  | PyList "'a result list"
  | PyOther 'a

text \<open>What the marshaling stage returns for one entry: the object itself, or the conversion
  that was applied to it.\<close>

datatype 'r host =
    Raw 'r
  | JnpArray 'r
  | NpTensor 'r
  | NpTensorHstack 'r
  | ToArray 'r
  | HostTuple "'r host list"

text \<open>A marshaled batch: one entry per tape, or (single tape, legacy JAX) the whole list of
  results as one object.\<close>

datatype 'r batch = PerTape "'r host list" | Whole "'r list host"

text \<open>The gradient rule: a Python callable, which may be an instance of
  \<^verbatim>\<open>gradient_transform\<close>, has a \<^verbatim>\<open>__name__\<close>, and answers a call on one tape
  (\<^verbatim>\<open>gradient_fn(tape, shots=..., **kwargs)\<close>, giving gradient tapes and a processing
  function) and a call on a batch (\<^verbatim>\<open>gradient_fn(tapes, **kwargs)\<close>, giving Jacobians).\<close>

record ('a, 'v) gradient_fn =
  is_gradient_transform :: bool
  fn_name :: string
  on_tape :: "'a tape \<Rightarrow> shots_kw \<Rightarrow> kwargs \<Rightarrow> 'a tape list \<times> ('a result list \<Rightarrow> 'v)"
  on_batch :: "'a tape list \<Rightarrow> kwargs \<Rightarrow> 'v list"

text \<open>The collaborators. \<open>'v\<close> is the type of a per-tape Jacobian, cotangent or tangent,
  \<open>'w\<close> the type of a per-tape derivative contribution. \<open>batch_vjp\<close> and \<open>batch_jvp\<close> are
  already applied to the gradient rule, the reduction and the keyword configuration;
  \<open>sum_stack\<close> is \<^verbatim>\<open>qml.math.sum(qml.math.stack(...), axis=0)\<close>, \<open>None\<close> when numpy refuses the
  arrays; \<open>iter\<close> and \<open>iter_result\<close> are Python's iteration over an object.\<close>

record ('a, 'v, 'w) env =
  execute_fn :: "'a tape list \<Rightarrow> kwargs \<Rightarrow> 'a result list \<times> 'v list"
  batch_vjp :: "'a tape list \<Rightarrow> 'v list \<Rightarrow> shots_kw \<Rightarrow>
                  'a tape list \<times> ('a result host list \<Rightarrow> 'w list)"
  batch_jvp :: "'a tape list \<Rightarrow> 'v list \<Rightarrow> shots_kw \<Rightarrow>
                  'a tape list \<times> ('a result host list \<Rightarrow> 'w list)"
  map_batch_transform :: "('a tape \<Rightarrow> 'a tape list \<times> ('a result list \<Rightarrow> 'v)) \<Rightarrow> 'a tape list \<Rightarrow>
                  'a tape list \<times> ('a result list \<Rightarrow> 'v list)"
  compute_vjp :: "'v \<Rightarrow> 'v \<Rightarrow> 'w"
  compute_vjp_single :: "'v \<Rightarrow> 'v \<Rightarrow> 'w"
  compute_vjp_multi :: "'v \<Rightarrow> 'v \<Rightarrow> 'w"
  compute_jvp_single :: "'v \<Rightarrow> 'v \<Rightarrow> 'w"
  compute_jvp_multi :: "'v \<Rightarrow> 'v \<Rightarrow> 'w"
  sum_stack :: "'w list \<Rightarrow> 'w option"
  iter :: "'v \<Rightarrow> 'v list"
  iter_result :: "'a result \<Rightarrow> 'a result list"
  math_T :: "'v \<Rightarrow> 'v"
  is_ArrayBox :: "'w \<Rightarrow> bool"
  to_numpy :: "'w \<Rightarrow> int \<Rightarrow> 'w"
  ndim :: "'a result \<Rightarrow> nat"
  swapaxes :: "'a result \<Rightarrow> 'a result"
  active_return :: bool
  tracing :: bool

text \<open>What the two modules do to the outside world: entering an execution entry point
  (\<^verbatim>\<open>execute\<close>, or a legacy entry point) with a nesting depth \<^verbatim>\<open>_n\<close> and a \<^verbatim>\<open>max_diff\<close>,
  calling the backend, calling the gradient rule on a batch.\<close>

datatype 'a event =
    Execute int int
  | ExecuteLegacy int int
  | ExecuteFn "'a tape list" kwargs
  | GradientFn "'a tape list" kwargs

definition ebind :: "error + 'x \<Rightarrow> ('x \<Rightarrow> error + 'y) \<Rightarrow> error + 'y" where
  "ebind m f = (case m of Inl e \<Rightarrow> Inl e | Inr x \<Rightarrow> f x)"

fun emap :: "('x \<Rightarrow> error + 'y) \<Rightarrow> 'x list \<Rightarrow> error + 'y list" where
  "emap f [] = Inr []"
| "emap f (x # xs) =
     (case f x of Inl e \<Rightarrow> Inl e
      | Inr y \<Rightarrow> (case emap f xs of Inl e \<Rightarrow> Inl e | Inr ys \<Rightarrow> Inr (y # ys)))"

text \<open>Python list indexing with a non-negative index.\<close>

definition py_index :: "'x list \<Rightarrow> nat \<Rightarrow> error + 'x" where
  "py_index xs i = (if i < length xs then Inr (xs ! i) else Inl IndexError)"

subsection \<open>Tape methods and helpers of the repository that are outside the two modules\<close>

text \<open>Modelled from the spec: \<^verbatim>\<open>qml.math.get_trainable_indices\<close> is not in the two modules.
  The spec's glossary: a trainable parameter is a tape parameter flagged as differentiable;
  here, the parameters carried by a tracer.\<close>

definition requires_grad :: "'a param \<Rightarrow> bool" where
  "requires_grad p = (case p of Tracer _ \<Rightarrow> True | Numeric _ \<Rightarrow> False)"

definition get_trainable_indices :: "'a param list \<Rightarrow> nat list" where
  "get_trainable_indices params = filter (\<lambda>i. requires_grad (params ! i)) [0..<length params]"

text \<open>Modelled from the spec: \<^verbatim>\<open>tape.get_parameters\<close> is not in the two modules. With
  \<^verbatim>\<open>trainable_only=False\<close> it is the full parameter list; by default the values at the
  trainable indices, in tape order.\<close>

definition get_parameters_all :: "'a tape \<Rightarrow> 'a param list" where
  "get_parameters_all t = data t"

definition get_parameters :: "'a tape \<Rightarrow> 'a param list" where
  "get_parameters t = map (\<lambda>i. data t ! i) (filter (\<lambda>i. i < length (data t)) (trainable_params t))"

text \<open>Modelled from the spec: \<^verbatim>\<open>convert_to_numpy_parameters\<close> is not in the two modules. It
  gives a tape whose parameters are in concrete numeric form.\<close>

definition unwrap :: "'a param \<Rightarrow> 'a param" where
  "unwrap p = (case p of Tracer x \<Rightarrow> Numeric x | Numeric x \<Rightarrow> Numeric x)"

definition convert_to_numpy_parameters :: "'a tape \<Rightarrow> 'a tape" where
  "convert_to_numpy_parameters t = t\<lparr>data := map unwrap (data t)\<rparr>"

text \<open>Modelled from the spec: \<^verbatim>\<open>tape.bind_new_parameters\<close> is not in the two modules
  (``bind new parameters, get a new tape''): the values \<open>a\<close> replace the parameters at the
  given indices.\<close>

definition bind_new_parameters :: "'a tape \<Rightarrow> 'a param list \<Rightarrow> nat list \<Rightarrow> 'a tape" where
  "bind_new_parameters t a indices =
     t\<lparr>data := fold (\<lambda>(i, v) d. d[i := v]) (zip indices a) (data t)\<rparr>"

text \<open>The statement \<^verbatim>\<open>tape.trainable_params = qml.math.get_trainable_indices(params)\<close> with
  \<^verbatim>\<open>params = tape.get_parameters(trainable_only=False)\<close>, on one tape.\<close>

definition set_trainable :: "'a tape \<Rightarrow> 'a tape" where
  "set_trainable t =
     (let params = get_parameters_all t
      in t\<lparr>trainable_params := get_trainable_indices params\<rparr>)"

text \<open>Truth value of a device's \<^verbatim>\<open>shot_vector\<close>: \<^verbatim>\<open>None\<close> and the empty list are false.\<close>

definition truthy_shots :: "nat list option \<Rightarrow> bool" where
  "truthy_shots sv = (case sv of None \<Rightarrow> False | Some xs \<Rightarrow> xs \<noteq> [])"

section \<open>The JAX module\<close>

subsection \<open>Parameter substitution\<close>

definition jax__set_copy_and_unwrap_tape :: "'a tape \<Rightarrow> 'a param list \<Rightarrow> bool \<Rightarrow> 'a tape" where
  "jax__set_copy_and_unwrap_tape t a unwrap_flag =
     (let tc = bind_new_parameters t a (trainable_params t)
      in if unwrap_flag then convert_to_numpy_parameters tc else tc)"

definition set_parameters_on_copy_and_unwrap ::
  "'a tape list \<Rightarrow> 'a param list list \<Rightarrow> bool \<Rightarrow> 'a tape list" where
  "set_parameters_on_copy_and_unwrap tapes params unwrap_flag =
     map (\<lambda>(t, a). jax__set_copy_and_unwrap_tape t a unwrap_flag) (zip tapes params)"

subsection \<open>Validation\<close>

definition validate_tape :: "'a tape \<Rightarrow> error + unit" where
  "validate_tape t =
     (let measurement_types = map mp_class (measurements t);
          set_of_measurement_types = remdups measurement_types;
          probs_or_sample_measure =
            (SampleMP \<in> set measurement_types \<or> ProbabilityMP \<in> set measurement_types)
      in if probs_or_sample_measure \<and> length set_of_measurement_types > 1
         then Inl (InterfaceUnsupportedError
           ''Using the JAX interface, sample and probability measurements cannot be mixed with other measurement types.'')
         else if ProbabilityMP \<in> set measurement_types
                 \<and> length (remdups (map (\<lambda>m. length (wires m)) (measurements t))) > 1
         then Inl (InterfaceUnsupportedError
           ''Using the JAX interface, multiple probability measurements need to have the same number of wires specified.'')
         else Inr ())"

fun jax__validate_tapes :: "'a tape list \<Rightarrow> error + unit" where
  "jax__validate_tapes [] = Inr ()"
| "jax__validate_tapes (t # ts) =
     (case validate_tape t of Inl e \<Rightarrow> Inl e | Inr _ \<Rightarrow> jax__validate_tapes ts)"

subsection \<open>Legacy forward-mode path: \<^verbatim>\<open>_execute_fwd_legacy\<close>\<close>

definition jax__raise_vector_valued_fwd :: "'a tape list \<Rightarrow> error + unit" where
  "jax__raise_vector_valued_fwd tapes =
     (let scalar_outputs = list_all (\<lambda>t. output_dim t = 1) tapes
      in if \<not> scalar_outputs
         then Inl (InterfaceUnsupportedError
           ''Computing the jacobian of vector-valued tapes is not supported currently in forward mode.'')
         else Inr ())"

text \<open>A stored forward-pass Jacobian \<open>j\<close> is a two-dimensional array: \<^verbatim>\<open>j.shape[0]\<close>,
  \<^verbatim>\<open>j.shape[1]\<close> and \<^verbatim>\<open>j[k, i]\<close>. A reshaped entry is the scalar \<^verbatim>\<open>j[0, i]\<close> or the
  array of the column \<open>i\<close>.\<close>

record 'b jacobian2d =
  shape0 :: nat
  shape1 :: nat
  entry :: "nat \<Rightarrow> nat \<Rightarrow> 'b"

datatype 'b cell = Scalar 'b | Column "'b list"

definition reshape_jac :: "'b jacobian2d \<Rightarrow> 'b cell list" where
  "reshape_jac j =
     map (\<lambda>i. if shape0 j = 1 then Scalar (entry j 0 i)
              else Column (map (\<lambda>k. entry j k i) [0..<shape0 j]))
         [0..<shape1 j]"

text \<open>The backward rule \<^verbatim>\<open>wrapped_exec_bwd(params, g)\<close> of \<^verbatim>\<open>_execute_fwd_legacy\<close>; its
  first argument is the residual pair \<^verbatim>\<open>(jacs, params)\<close> of the forward pass. The result is
  the 1-tuple holding the tuple of reshaped Jacobians.\<close>

definition jax__execute_fwd_legacy_wrapped_exec_bwd ::
  "'a tape list \<Rightarrow> 'b jacobian2d list \<times> 'a param list list \<Rightarrow> 'g \<Rightarrow> error + 'b cell list list list" where
  "jax__execute_fwd_legacy_wrapped_exec_bwd tapes residuals g =
     (case residuals of (jacs, params) \<Rightarrow>
        ebind (jax__raise_vector_valued_fwd tapes)
          (\<lambda>_. let res_jacs = map reshape_jac jacs in Inr [res_jacs]))"

text \<open>The forward evaluator \<^verbatim>\<open>wrapped_exec\<close> of \<^verbatim>\<open>_execute_fwd_legacy\<close>, with the events it
  causes.\<close>

definition jax__execute_fwd_legacy_wrapped_exec ::
  "('a, 'v, 'w) env \<Rightarrow> 'a tape list \<Rightarrow> kwargs \<Rightarrow> 'a param list list \<Rightarrow>
     ('a result batch \<times> 'v batch) \<times> 'a event list" where
  "jax__execute_fwd_legacy_wrapped_exec E tapes gradient_kwargs params =
     (let new_tapes = set_parameters_on_copy_and_unwrap tapes params True;
          (res, jacs) = execute_fn E new_tapes gradient_kwargs
      in ((if length tapes > 1 then (PerTape (map JnpArray res), PerTape (map JnpArray jacs))
           else (Whole (JnpArray res), Whole (JnpArray jacs))),
          [ExecuteFn new_tapes gradient_kwargs]))"

text \<open>\<^verbatim>\<open>_execute_fwd_legacy\<close> returns the pair \<^verbatim>\<open>(res, jacs)\<close> of the evaluator (a pair has
  length 2), or \<^verbatim>\<open>res\<close> alone when no entry is a \<^verbatim>\<open>JVPTracer\<close>: whether the host engine
  is tracing is the field \<open>tracing\<close> of the environment.\<close>

datatype ('a, 'v) legacy_out = OnlyRes "'a result batch" | ResAndJacs "'a result batch" "'v batch"

definition jax__execute_fwd_legacy ::
  "('a, 'v, 'w) env \<Rightarrow> 'a param list list \<Rightarrow> 'a tape list \<Rightarrow> kwargs \<Rightarrow> int \<Rightarrow>
     ('a, 'v) legacy_out \<times> 'a event list" where
  "jax__execute_fwd_legacy E params tapes gradient_kwargs n =
     (case jax__execute_fwd_legacy_wrapped_exec E tapes gradient_kwargs params of
        ((res, jacs), evs) \<Rightarrow>
          (if \<not> tracing E then OnlyRes res else ResAndJacs res jacs, evs))"

subsection \<open>Legacy backward-mode path: \<^verbatim>\<open>_execute_legacy\<close>\<close>

definition has_counts :: "'a tape \<Rightarrow> bool" where
  "has_counts tape = list_ex (\<lambda>m. mp_class m = CountsMP) (measurements tape)"

definition array_if_not_counts :: "'a tape \<Rightarrow> 'r \<Rightarrow> error + 'r host" where
  "array_if_not_counts tape r =
     (if has_counts tape then
        (if batch_size tape \<noteq> None
         then Inl (InterfaceUnsupportedError
           ''Broadcasted circuits with counts return types are only supported with the new return system. Use qml.enable_return() to turn it on.'')
         else Inr (Raw r))
      else Inr (JnpArray r))"

definition jax__execute_legacy_wrapped_exec ::
  "('a, 'v, 'w) env \<Rightarrow> 'a tape list \<Rightarrow> kwargs \<Rightarrow> 'a param list list \<Rightarrow>
     (error + 'a result batch) \<times> 'a event list" where
  "jax__execute_legacy_wrapped_exec E tapes gradient_kwargs params =
     (let new_tapes = set_parameters_on_copy_and_unwrap tapes params True;
          (res, _) = execute_fn E new_tapes gradient_kwargs
      in ((if length tapes > 1
           then ebind (emap (\<lambda>(tape, r). array_if_not_counts tape r) (zip tapes res))
                  (\<lambda>rs. Inr (PerTape rs))
           else ebind (py_index tapes 0)
                  (\<lambda>tape0. ebind (array_if_not_counts tape0 res) (\<lambda>r. Inr (Whole r)))),
          [ExecuteFn new_tapes gradient_kwargs]))"

text \<open>The loop \<^verbatim>\<open>for t in tapes: multi_probs = ...\<close> assigns one variable; \<open>None\<close> is the
  variable still unbound.\<close>

definition multi_probs_of :: "'a tape \<Rightarrow> bool" where
  "multi_probs_of t =
     (list_ex (\<lambda>m. mp_class m = ProbabilityMP) (measurements t) \<and> length (measurements t) > 1)"

definition multi_probs_loop :: "'a tape list \<Rightarrow> bool option" where
  "multi_probs_loop tapes = fold (\<lambda>t multi_probs. Some (multi_probs_of t)) tapes None"

definition adjust_partial_res ::
  "('a, 'v, 'w) env \<Rightarrow> 'a tape list \<Rightarrow> 'a result list \<Rightarrow> error + 'a result list" where
  "adjust_partial_res E tapes partial_res =
     (case multi_probs_loop tapes of
        None \<Rightarrow> Inl UnboundLocalError
      | Some multi_probs \<Rightarrow>
          if multi_probs
          then Inr (map (\<lambda>r. if ndim E r > 1 then swapaxes E r else r) partial_res)
          else Inr partial_res)"

text \<open>\<^verbatim>\<open>jnp.concatenate\<close> of one-dimensional arrays (lists of scalars); it refuses the empty
  sequence. The loop \<^verbatim>\<open>for p in params\<close> cuts the slices
  \<^verbatim>\<open>vjps[param_idx : param_idx + len(p)]\<close>.\<close>

definition jnp_concatenate :: "'b list list \<Rightarrow> error + 'b list" where
  "jnp_concatenate res = (if res = [] then Inl ValueError else Inr (concat res))"

fun group_vjps :: "'b list \<Rightarrow> 'p list list \<Rightarrow> nat \<Rightarrow> 'b list list" where
  "group_vjps vjps [] param_idx = []"
| "group_vjps vjps (p # ps) param_idx =
     take (length p) (drop param_idx vjps) # group_vjps vjps ps (param_idx + length p)"

text \<open>The backward rule \<^verbatim>\<open>wrapped_exec_bwd(params, g)\<close> of \<^verbatim>\<open>_execute_legacy\<close>. A
  derivative contribution is a one-dimensional array, so every slice has \<^verbatim>\<open>ndim\<close> 1 and
  is unstacked into its scalars; the result is the 1-tuple holding the tuple of groups.\<close>

definition jax__execute_legacy_wrapped_exec_bwd ::
  "('a, 'v, 'b list) env \<Rightarrow> 'a tape list \<Rightarrow> ('a, 'v) gradient_fn option \<Rightarrow> kwargs \<Rightarrow>
     'a param list list \<Rightarrow> 'v list \<Rightarrow> (error + 'b list list list) \<times> 'a event list" where
  "jax__execute_legacy_wrapped_exec_bwd E tapes gradient_fn gradient_kwargs params g =
     (if (case gradient_fn of None \<Rightarrow> False | Some gf \<Rightarrow> is_gradient_transform gf) then
        (let new_tapes = set_parameters_on_copy_and_unwrap tapes params True;
             (vjp_tapes, processing_fn) = batch_vjp E new_tapes g NoShotsKw;
             partial_res = fst (execute_fn E vjp_tapes [])
         in (ebind (adjust_partial_res E tapes partial_res)
               (\<lambda>partial_res.
                  let res = processing_fn (map Raw partial_res)
                  in ebind (jnp_concatenate res)
                       (\<lambda>vjps. let res = group_vjps vjps params 0 in Inr [res])),
             [ExecuteFn vjp_tapes []]))
      else
        (case gradient_fn of
           None \<Rightarrow> (Inl TypeError, [])
         | Some gf \<Rightarrow>
             (let unwrapped_tapes = map convert_to_numpy_parameters tapes;
                  jacs = on_batch gf unwrapped_tapes gradient_kwargs;
                  vjps = map (\<lambda>(d, jac). compute_vjp E d jac) (zip g jacs);
                  res = vjps
              in (Inr [res], [GradientFn unwrapped_tapes gradient_kwargs]))))"

definition jax__execute_legacy ::
  "('a, 'v, 'w) env \<Rightarrow> 'a param list list \<Rightarrow> 'a tape list \<Rightarrow> kwargs \<Rightarrow> int \<Rightarrow>
     (error + 'a result batch) \<times> 'a event list" where
  "jax__execute_legacy E params tapes gradient_kwargs n =
     jax__execute_legacy_wrapped_exec E tapes gradient_kwargs params"

subsection \<open>Legacy entry point: \<^verbatim>\<open>execute_legacy\<close>\<close>

text \<open>The result is the outcome, the tapes as the call leaves them (the trainable-parameter
  annotation is mutated in place), and the events, the first of which is the entry itself.\<close>

definition jax_execute_legacy ::
  "('a, 'v, 'w) env \<Rightarrow> 'a tape list \<Rightarrow> ('a, 'v) gradient_fn option \<Rightarrow> kwargs \<Rightarrow> int \<Rightarrow> int \<Rightarrow>
     (error + ('a, 'v) legacy_out) \<times> 'a tape list \<times> 'a event list" where
  "jax_execute_legacy E tapes gradient_fn gradient_kwargs n max_diff =
     (if max_diff > 1
      then (Inl (InterfaceUnsupportedError ''The JAX interface only supports first order derivatives.''),
            tapes, [ExecuteLegacy n max_diff])
      else
        (case jax__validate_tapes tapes of
           Inl e \<Rightarrow> (Inl e, tapes, [ExecuteLegacy n max_diff])
         | Inr _ \<Rightarrow>
            (let tapes1 = (if n = 1 then map set_trainable tapes else tapes);
                 parameters = map get_parameters tapes1
             in if gradient_fn = None
                then (case jax__execute_fwd_legacy E parameters tapes1 gradient_kwargs n of
                        (out, evs) \<Rightarrow> (Inr out, tapes1, ExecuteLegacy n max_diff # evs))
                else (case jax__execute_legacy E parameters tapes1 gradient_kwargs n of
                        (out, evs) \<Rightarrow>
                          (ebind out (\<lambda>res. Inr (OnlyRes res)), tapes1,
                           ExecuteLegacy n max_diff # evs)))))"

subsection \<open>Result marshaling: \<^verbatim>\<open>_to_jax\<close>\<close>

definition is_dict :: "'a result \<Rightarrow> bool" where
  "is_dict r = (case r of Dict _ \<Rightarrow> True | _ \<Rightarrow> False)"

definition jax__is_count_result :: "'a result \<Rightarrow> bool" where
  "jax__is_count_result r =
     (is_dict r \<or> (case r of PyList xs \<Rightarrow> list_all is_dict xs | _ \<Rightarrow> False))"

definition jax__to_jax_entry :: "'a result \<Rightarrow> 'a result host" where
  "jax__to_jax_entry r =
     (if jax__is_count_result r then Raw r
      else (case r of
              PyTuple rs \<Rightarrow>
                HostTuple (map (\<lambda>r_i. if jax__is_count_result r_i then Raw r_i else JnpArray r_i) rs)
            | _ \<Rightarrow> JnpArray r))"

definition jax__to_jax :: "'a result list \<Rightarrow> 'a result host list" where
  "jax__to_jax res = map jax__to_jax_entry res"

definition jax__to_jax_shot_vector ::
  "('a, 'v, 'w) env \<Rightarrow> 'a result list \<Rightarrow> 'a result host list" where
  "jax__to_jax_shot_vector E res =
     map (\<lambda>r. HostTuple (map (\<lambda>r'. hd (jax__to_jax [r'])) (iter_result E r))) res"

subsection \<open>Forward-mode path: \<^verbatim>\<open>_execute_fwd\<close>\<close>

definition jax__compute_jvps ::
  "('a, 'v, 'w) env \<Rightarrow> 'v list \<Rightarrow> 'v list \<Rightarrow> bool list \<Rightarrow> error + 'w list" where
  "jax__compute_jvps E jacs tangents multi_measurements =
     emap (\<lambda>(i, multi).
             let compute_func = (if multi then compute_jvp_multi E else compute_jvp_single E)
             in ebind (py_index tangents i)
                  (\<lambda>t. ebind (py_index jacs i) (\<lambda>j. Inr (compute_func t j))))
          (zip [0..<length multi_measurements] multi_measurements)"

definition jax__execute_fwd_execute_wrapper ::
  "('a, 'v, 'w) env \<Rightarrow> 'a tape list \<Rightarrow> kwargs \<Rightarrow> 'a param list list \<Rightarrow>
     ('a result host list \<times> 'v list) \<times> 'a event list" where
  "jax__execute_fwd_execute_wrapper E tapes gradient_kwargs params =
     (let new_tapes = set_parameters_on_copy_and_unwrap tapes params True;
          (res, jacs) = execute_fn E new_tapes gradient_kwargs;
          res = jax__to_jax res
      in ((res, jacs), [ExecuteFn new_tapes gradient_kwargs]))"

definition jax__execute_fwd_execute_wrapper_jvp ::
  "('a, 'v, 'w) env \<Rightarrow> 'a tape list \<Rightarrow> kwargs \<Rightarrow> 'a param list list \<Rightarrow> 'v list \<Rightarrow>
     (error + ('a result host list \<times> 'v list) \<times> ('w list \<times> 'v list)) \<times> 'a event list" where
  "jax__execute_fwd_execute_wrapper_jvp E tapes gradient_kwargs primals tangents =
     (case jax__execute_fwd_execute_wrapper E tapes gradient_kwargs primals of
        ((res, jacs), evs) \<Rightarrow>
          (let multi_measurements = map (\<lambda>tape. length (measurements tape) > 1) tapes
           in (ebind (jax__compute_jvps E jacs tangents multi_measurements)
                 (\<lambda>jvps. Inr ((res, jacs), (jvps, jacs))),
               evs)))"

definition jax__execute_fwd ::
  "('a, 'v, 'w) env \<Rightarrow> 'a param list list \<Rightarrow> 'a tape list \<Rightarrow> kwargs \<Rightarrow> int \<Rightarrow>
     'a result host list \<times> 'a event list" where
  "jax__execute_fwd E params tapes gradient_kwargs n =
     (case jax__execute_fwd_execute_wrapper E tapes gradient_kwargs params of
        ((res, _), evs) \<Rightarrow> (res, evs))"

subsection \<open>Backward-mode path: \<^verbatim>\<open>_execute_bwd\<close> and the entry point \<^verbatim>\<open>execute\<close>\<close>

text \<open>The pair \<^verbatim>\<open>(has_partitioned_shots, shots)\<close> that \<^verbatim>\<open>_execute_bwd\<close> (and the Autograd
  backward rule) reads off the device; \<^verbatim>\<open>tapes[0]\<close> fails on an empty batch.\<close>

definition device_shots :: "device \<Rightarrow> 'a tape list \<Rightarrow> error + bool \<times> nat list option" where
  "device_shots device tapes =
     (case device of
        ExperimentalDevice \<Rightarrow>
          ebind (py_index tapes 0) (\<lambda>tape0. Inr (has_partitioned_shots tape0, None))
      | LegacyDevice sv \<Rightarrow> Inr (truthy_shots sv, sv))"

definition jax__execute_bwd_execute_wrapper ::
  "('a, 'v, 'w) env \<Rightarrow> 'a tape list \<Rightarrow> kwargs \<Rightarrow> bool \<Rightarrow> 'a param list list \<Rightarrow>
     'a result host list \<times> 'a event list" where
  "jax__execute_bwd_execute_wrapper E tapes gradient_kwargs has_partitioned params =
     (let new_tapes = set_parameters_on_copy_and_unwrap tapes params True;
          (res, _) = execute_fn E new_tapes gradient_kwargs
      in (if has_partitioned then jax__to_jax_shot_vector E res else jax__to_jax res,
          [ExecuteFn new_tapes gradient_kwargs]))"

text \<open>The forward call of \<^verbatim>\<open>_execute_bwd\<close>: it reads the device, then runs
  \<^verbatim>\<open>execute_wrapper(params)\<close>; the gradient rule is used by the tangent rule only.\<close>

definition jax__execute_bwd ::
  "('a, 'v, 'w) env \<Rightarrow> 'a param list list \<Rightarrow> 'a tape list \<Rightarrow> device \<Rightarrow> kwargs \<Rightarrow> int \<Rightarrow> int \<Rightarrow>
     (error + 'a result host list) \<times> 'a event list" where
  "jax__execute_bwd E params tapes device gradient_kwargs n max_diff =
     (case device_shots device tapes of
        Inl e \<Rightarrow> (Inl e, [])
      | Inr (has_partitioned, jvp_shots) \<Rightarrow>
          (case jax__execute_bwd_execute_wrapper E tapes gradient_kwargs has_partitioned params of
             (res, evs) \<Rightarrow> (Inr res, evs)))"

definition jax_execute ::
  "('a, 'v, 'w) env \<Rightarrow> 'a tape list \<Rightarrow> device \<Rightarrow> ('a, 'v) gradient_fn option \<Rightarrow> kwargs \<Rightarrow>
     int \<Rightarrow> int \<Rightarrow> (error + 'a result host list) \<times> 'a tape list \<times> 'a event list" where
  "jax_execute E tapes device gradient_fn gradient_kwargs n max_diff =
     (let tapes1 = (if n = 1 then map set_trainable tapes else tapes);
          parameters = map get_parameters tapes1
      in if gradient_fn = None
         then (case jax__execute_fwd E parameters tapes1 gradient_kwargs n of
                 (res, evs) \<Rightarrow> (Inr res, tapes1, Execute n max_diff # evs))
         else (case jax__execute_bwd E parameters tapes1 device gradient_kwargs n max_diff of
                 (out, evs) \<Rightarrow> (out, tapes1, Execute n max_diff # evs)))"

text \<open>The tangent rule \<^verbatim>\<open>execute_wrapper_jvp(primals, tangents)\<close> registered by
  \<^verbatim>\<open>_execute_bwd\<close>; \<open>primals\<close> and \<open>tangents\<close> are \<^verbatim>\<open>primals[0]\<close> and \<^verbatim>\<open>tangents[0]\<close>, and
  \<open>has_partitioned\<close>, \<open>jvp_shots\<close> are the variables of the enclosing call.\<close>

definition jax__execute_bwd_execute_wrapper_jvp ::
  "('a, 'v, 'w) env \<Rightarrow> 'a tape list \<Rightarrow> device \<Rightarrow> ('a, 'v) gradient_fn option \<Rightarrow> kwargs \<Rightarrow>
     int \<Rightarrow> int \<Rightarrow> bool \<Rightarrow> nat list option \<Rightarrow> 'a param list list \<Rightarrow> 'v list \<Rightarrow>
     (error + 'a result host list \<times> 'w list) \<times> 'a event list" where
  "jax__execute_bwd_execute_wrapper_jvp E tapes device gradient_fn gradient_kwargs n max_diff
       has_partitioned jvp_shots primals tangents =
     (if (case gradient_fn of None \<Rightarrow> False | Some gf \<Rightarrow> is_gradient_transform gf) then
        (let at_max_diff = (n = max_diff);
             new_tapes = set_parameters_on_copy_and_unwrap tapes primals at_max_diff;
             (jvp_tapes, processing_fn) = batch_jvp E new_tapes tangents (ShotsKw jvp_shots)
         in if at_max_diff then
              (let jvps = processing_fn (map Raw (fst (execute_fn E jvp_tapes [])));
                   (res, evs) = jax__execute_bwd_execute_wrapper E tapes gradient_kwargs
                                  has_partitioned primals
               in (Inr (res, jvps), ExecuteFn jvp_tapes [] # evs))
            else
              (case jax_execute E jvp_tapes device gradient_fn gradient_kwargs (n + 1) max_diff of
                 (Inl e, _, evs1) \<Rightarrow> (Inl e, evs1)
               | (Inr out, _, evs1) \<Rightarrow>
                   (let jvps = processing_fn out;
                        (res, evs) = jax__execute_bwd_execute_wrapper E tapes gradient_kwargs
                                       has_partitioned primals
                    in (Inr (res, jvps), evs1 @ evs))))
      else
        (case jax__execute_bwd_execute_wrapper E tapes gradient_kwargs has_partitioned primals of
           (res, evs) \<Rightarrow>
             (let new_tapes = set_parameters_on_copy_and_unwrap tapes primals True
              in case gradient_fn of
                   None \<Rightarrow> (Inl TypeError, evs)
                 | Some gf \<Rightarrow>
                     (let jacs = on_batch gf new_tapes gradient_kwargs;
                          multi_measurements = map (\<lambda>tape. length (measurements tape) > 1) new_tapes
                      in (ebind (jax__compute_jvps E jacs tangents multi_measurements)
                            (\<lambda>jvps. Inr (res, jvps)),
                          evs @ [GradientFn new_tapes gradient_kwargs])))))"

section \<open>The Autograd module\<close>

subsection \<open>Legacy path: \<^verbatim>\<open>__execute_legacy\<close> and \<^verbatim>\<open>_execute_legacy\<close>\<close>

text \<open>One round of the loop \<^verbatim>\<open>for i, r in enumerate(res)\<close> of \<^verbatim>\<open>__execute_legacy\<close>, for the
  tape \<^verbatim>\<open>tapes[i]\<close> and the result \<open>r\<close>.\<close>

definition autograd_marshal_legacy :: "'a tape \<Rightarrow> 'a result \<Rightarrow> 'a result host" where
  "autograd_marshal_legacy tape_i r =
     (if has_counts tape_i then Raw r
      else (case r of
              NdArray object_dtype _ \<Rightarrow> (if object_dtype then NpTensorHstack r else NpTensor r)
            | PyTuple rs \<Rightarrow> HostTuple (map NpTensor rs)
            | _ \<Rightarrow> ToArray r))"

definition autograd___execute_legacy ::
  "('a, 'v, 'w) env \<Rightarrow> 'a param list list \<Rightarrow> 'a tape list \<Rightarrow> kwargs \<Rightarrow> int \<Rightarrow> int \<Rightarrow>
     (error + 'a result host list \<times> 'v list) \<times> 'a event list" where
  "autograd___execute_legacy E parameters tapes gradient_kwargs n max_diff =
     (let unwrapped_tapes = map convert_to_numpy_parameters tapes;
          (res, jacs) = execute_fn E unwrapped_tapes gradient_kwargs
      in (ebind (emap (\<lambda>(i, r). ebind (py_index tapes i)
                                  (\<lambda>tape_i. Inr (autograd_marshal_legacy tape_i r)))
                      (zip [0..<length res] res))
            (\<lambda>res. Inr (res, jacs)),
          [ExecuteFn unwrapped_tapes gradient_kwargs]))"

definition autograd__execute_legacy ::
  "('a, 'v, 'w) env \<Rightarrow> 'a tape list \<Rightarrow> device \<Rightarrow> ('a, 'v) gradient_fn option \<Rightarrow> kwargs \<Rightarrow>
     int \<Rightarrow> int \<Rightarrow> (error + 'a result host list) \<times> 'a tape list \<times> 'a event list" where
  "autograd__execute_legacy E tapes device gradient_fn gradient_kwargs n max_diff =
     (let tapes1 = map set_trainable tapes;
          parameters = map get_parameters tapes1
      in case autograd___execute_legacy E parameters tapes1 gradient_kwargs n max_diff of
           (out, evs) \<Rightarrow> (ebind out (\<lambda>(res, jacs). Inr res), tapes1, ExecuteLegacy n max_diff # evs))"

subsection \<open>The entry point \<^verbatim>\<open>execute\<close> and the primitive \<^verbatim>\<open>_execute\<close>\<close>

definition autograd__execute ::
  "('a, 'v, 'w) env \<Rightarrow> 'a param list list \<Rightarrow> 'a tape list \<Rightarrow> kwargs \<Rightarrow> int \<Rightarrow> int \<Rightarrow>
     ('a result list \<times> 'v list) \<times> 'a event list" where
  "autograd__execute E parameters tapes gradient_kwargs n max_diff =
     (let unwrapped_tapes = map convert_to_numpy_parameters tapes;
          (res, jacs) = execute_fn E unwrapped_tapes gradient_kwargs
      in ((res, jacs), [ExecuteFn unwrapped_tapes gradient_kwargs]))"

definition autograd_execute ::
  "('a, 'v, 'w) env \<Rightarrow> 'a tape list \<Rightarrow> device \<Rightarrow> ('a, 'v) gradient_fn option \<Rightarrow> kwargs \<Rightarrow>
     int \<Rightarrow> int \<Rightarrow> (error + 'a result host list) \<times> 'a tape list \<times> 'a event list" where
  "autograd_execute E tapes device gradient_fn gradient_kwargs n max_diff =
     (if \<not> active_return E then
        (case autograd__execute_legacy E tapes device gradient_fn gradient_kwargs n max_diff of
           (out, tapes1, evs) \<Rightarrow> (out, tapes1, Execute n max_diff # evs))
      else
        (let tapes1 = map set_trainable tapes;
             parameters = map get_parameters tapes1
         in case autograd__execute E parameters tapes1 gradient_kwargs n max_diff of
              ((res, jacs), evs) \<Rightarrow> (Inr (map Raw res), tapes1, Execute n max_diff # evs)))"

subsection \<open>The legacy backward rule: \<^verbatim>\<open>_vjp_legacy\<close>\<close>

text \<open>The dictionary \<^verbatim>\<open>cached_jac\<close> has at most the key \<^verbatim>\<open>"jacobian"\<close>: it is \<open>None\<close> while
  empty. The closures of \<^verbatim>\<open>_vjp_legacy\<close> take the cache and return it updated, with the
  events they caused.\<close>

definition autograd__vjp_legacy_get_jac_with_caching ::
  "('a, 'v, 'w) env \<Rightarrow> 'a tape list \<Rightarrow> ('a, 'v) gradient_fn \<Rightarrow> kwargs \<Rightarrow> 'v list option \<Rightarrow>
     'v list \<times> 'v list option \<times> 'a event list" where
  "autograd__vjp_legacy_get_jac_with_caching E tapes gf gradient_kwargs cached_jac =
     (case cached_jac of
        Some jacs \<Rightarrow> (jacs, cached_jac, [])
      | None \<Rightarrow>
          (let rounds = map (\<lambda>t. let (g_tapes, fn) = on_tape gf t NoShotsKw gradient_kwargs;
                                     unwrapped_tapes = map convert_to_numpy_parameters g_tapes;
                                     (res, _) = execute_fn E unwrapped_tapes gradient_kwargs
                                 in (fn res, ExecuteFn unwrapped_tapes gradient_kwargs)) tapes;
               jacs = map fst rounds
           in (jacs, Some jacs, map snd rounds)))"

text \<open>The conversion of the returned list:
  \<^verbatim>\<open>[to_numpy(v, max_depth=_n) if isinstance(v, ArrayBox) else v for v in vjps]\<close>.\<close>

definition return_vjps :: "('a, 'v, 'w) env \<Rightarrow> int \<Rightarrow> 'w list \<Rightarrow> 'w list" where
  "return_vjps E n vjps = map (\<lambda>v. if is_ArrayBox E v then to_numpy E v n else v) vjps"

text \<open>The test \<^verbatim>\<open>gradient_fn and gradient_fn.__name__ == "param_shift" and computing_jacobian\<close>:
  the rule to call when the test succeeds (\<^verbatim>\<open>None\<close> is false, a callable is true).\<close>

definition use_cache :: "('a, 'v) gradient_fn option \<Rightarrow> bool \<Rightarrow> ('a, 'v) gradient_fn option" where
  "use_cache gradient_fn computing_jacobian =
     (case gradient_fn of
        None \<Rightarrow> None
      | Some gf \<Rightarrow> if fn_name gf = ''param_shift'' \<and> computing_jacobian then Some gf else None)"

text \<open>\<^verbatim>\<open>grad_fn(dy)\<close> of \<^verbatim>\<open>_vjp_legacy\<close>; \<open>ans\<close> is the pair returned by the forward pass and
  \<open>dy\<close> the pair of cotangents, of which \<^verbatim>\<open>dy[0]\<close> is used.\<close>

definition autograd__vjp_legacy_grad_fn ::
  "('a, 'v, 'w) env \<Rightarrow> 'r \<times> 'v list \<Rightarrow> 'a tape list \<Rightarrow> device \<Rightarrow> ('a, 'v) gradient_fn option \<Rightarrow>
     kwargs \<Rightarrow> int \<Rightarrow> int \<Rightarrow> 'v list option \<Rightarrow> 'v list \<times> 'd \<Rightarrow>
     (error + 'w list) \<times> 'v list option \<times> 'a event list" where
  "autograd__vjp_legacy_grad_fn E ans tapes device gradient_fn gradient_kwargs n max_diff cached_jac dy =
     (let dy = map (math_T E) (fst dy);
          computing_jacobian = (n = max_diff);
          (jacs, cached_jac, evs0) =
            (case use_cache gradient_fn computing_jacobian of
               Some gf \<Rightarrow> autograd__vjp_legacy_get_jac_with_caching E tapes gf
                            gradient_kwargs cached_jac
             | None \<Rightarrow> (snd ans, cached_jac, []))
      in if jacs \<noteq> [] then
           (let vjps = map (\<lambda>(d, jac). compute_vjp E d jac) (zip dy jacs)
            in (Inr (return_vjps E n vjps), cached_jac, evs0))
         else if (case gradient_fn of None \<Rightarrow> False | Some gf \<Rightarrow> is_gradient_transform gf) then
           (if n = max_diff then
              (let unwrapped_tapes = map convert_to_numpy_parameters tapes;
                   (vjp_tapes, processing_fn) = batch_vjp E unwrapped_tapes dy NoShotsKw;
                   vjps = processing_fn (map Raw (fst (execute_fn E vjp_tapes [])))
               in (Inr (return_vjps E n vjps), cached_jac, evs0 @ [ExecuteFn vjp_tapes []]))
            else
              (let (vjp_tapes, processing_fn) = batch_vjp E tapes dy NoShotsKw
               in case autograd__execute_legacy E vjp_tapes device gradient_fn gradient_kwargs
                         (n + 1) max_diff of
                    (Inl e, _, evs1) \<Rightarrow> (Inl e, cached_jac, evs0 @ evs1)
                  | (Inr out, _, evs1) \<Rightarrow>
                      (let vjps = processing_fn out
                       in (Inr (return_vjps E n vjps), cached_jac, evs0 @ evs1))))
         else
           (case gradient_fn of
              None \<Rightarrow> (Inl TypeError, cached_jac, evs0)
            | Some gf \<Rightarrow>
                (let unwrapped_tapes = map convert_to_numpy_parameters tapes;
                     jacs = on_batch gf unwrapped_tapes gradient_kwargs;
                     vjps = map (\<lambda>(d, jac). compute_vjp E d jac) (zip dy jacs)
                 in (Inr (return_vjps E n vjps), cached_jac,
                     evs0 @ [GradientFn unwrapped_tapes gradient_kwargs]))))"

subsection \<open>The backward rule: \<^verbatim>\<open>vjp\<close>\<close>

definition autograd_vjp_get_jac_with_caching ::
  "('a, 'v, 'w) env \<Rightarrow> 'a tape list \<Rightarrow> device \<Rightarrow> ('a, 'v) gradient_fn \<Rightarrow> kwargs \<Rightarrow>
     'v list option \<Rightarrow> (error + 'v list) \<times> 'v list option \<times> 'a event list" where
  "autograd_vjp_get_jac_with_caching E tapes device gf gradient_kwargs cached_jac =
     (case cached_jac of
        Some jacs \<Rightarrow> (Inr jacs, cached_jac, [])
      | None \<Rightarrow>
          (case (case device of
                   ExperimentalDevice \<Rightarrow>
                     ebind (py_index tapes 0)
                       (\<lambda>tape0. Inr (if has_partitioned_shots tape0
                                      then Some (shot_vector tape0) else None))
                 | LegacyDevice sv \<Rightarrow> Inr sv) of
             Inl e \<Rightarrow> (Inl e, cached_jac, [])
           | Inr shot_vector' \<Rightarrow>
               (let partial_gradient_fn = (\<lambda>tape. on_tape gf tape (ShotsKw shot_vector') gradient_kwargs);
                    (g_tapes, fn) = map_batch_transform E partial_gradient_fn tapes;
                    unwrapped_tapes = map convert_to_numpy_parameters g_tapes;
                    (res, _) = execute_fn E unwrapped_tapes gradient_kwargs;
                    jacs = fn res
                in (Inr jacs, Some jacs, [ExecuteFn unwrapped_tapes gradient_kwargs]))))"

text \<open>The contraction chosen in the inner loop of \<^verbatim>\<open>_compute_vjps_autograd\<close>:
  \<^verbatim>\<open>compute_vjp_multi(d, j)\<close> if \<^verbatim>\<open>multi\<close>, else \<^verbatim>\<open>compute_vjp_single(d, j)\<close>.\<close>

definition shot_vjp :: "('a, 'v, 'w) env \<Rightarrow> bool \<Rightarrow> 'v \<Rightarrow> 'v \<Rightarrow> 'w" where
  "shot_vjp E multi d j = (if multi then compute_vjp_multi E d j else compute_vjp_single E d j)"

definition autograd__compute_vjps_autograd ::
  "('a, 'v, 'w) env \<Rightarrow> 'v list \<Rightarrow> 'v list \<Rightarrow> bool list \<Rightarrow> bool \<Rightarrow> error + 'w list" where
  "autograd__compute_vjps_autograd E jacs dy multi_measurements has_partitioned =
     emap (\<lambda>(i, multi).
             ebind (py_index dy i)
               (\<lambda>dy_i. ebind (py_index jacs i)
                  (\<lambda>jac_i.
                     let dy' = (if has_partitioned then iter E dy_i else [dy_i]);
                         jac' = (if has_partitioned then iter E jac_i else [jac_i]);
                         shot_vjps = map (\<lambda>(d, j). shot_vjp E multi d j) (zip dy' jac')
                     in (case sum_stack E shot_vjps of
                           None \<Rightarrow> Inl ValueError
                         | Some summed \<Rightarrow> Inr summed))))
          (zip [0..<length multi_measurements] multi_measurements)"

text \<open>\<^verbatim>\<open>grad_fn(dy)\<close> of \<^verbatim>\<open>vjp\<close>.\<close>

definition autograd_vjp_grad_fn ::
  "('a, 'v, 'w) env \<Rightarrow> 'r \<times> 'v list \<Rightarrow> 'a tape list \<Rightarrow> device \<Rightarrow> ('a, 'v) gradient_fn option \<Rightarrow>
     kwargs \<Rightarrow> int \<Rightarrow> int \<Rightarrow> 'v list option \<Rightarrow> 'v list \<times> 'd \<Rightarrow>
     (error + 'w list) \<times> 'v list option \<times> 'a event list" where
  "autograd_vjp_grad_fn E ans tapes device gradient_fn gradient_kwargs n max_diff cached_jac dy =
     (let multi_measurements = map (\<lambda>tape. length (measurements tape) > 1) tapes;
          dy = fst dy;
          computing_jacobian = (n = max_diff)
      in case device_shots device tapes of
           Inl e \<Rightarrow> (Inl e, cached_jac, [])
         | Inr (has_partitioned, vjp_shots) \<Rightarrow>
            (case (case use_cache gradient_fn computing_jacobian of
                     Some gf \<Rightarrow> autograd_vjp_get_jac_with_caching E tapes device gf
                                  gradient_kwargs cached_jac
                   | None \<Rightarrow> (Inr (snd ans), cached_jac, [])) of
               (Inl e, cached_jac, evs0) \<Rightarrow> (Inl e, cached_jac, evs0)
             | (Inr jacs, cached_jac, evs0) \<Rightarrow>
                if jacs \<noteq> [] then
                  (ebind (autograd__compute_vjps_autograd E jacs dy multi_measurements has_partitioned)
                     (\<lambda>vjps. Inr (return_vjps E n vjps)),
                   cached_jac, evs0)
                else if (case gradient_fn of None \<Rightarrow> False | Some gf \<Rightarrow> is_gradient_transform gf) then
                  (if n = max_diff then
                     (let unwrapped_tapes = map convert_to_numpy_parameters tapes;
                          (vjp_tapes, processing_fn) =
                             batch_vjp E unwrapped_tapes dy (ShotsKw vjp_shots);
                          vjps = processing_fn (map Raw (fst (execute_fn E vjp_tapes [])))
                      in (Inr (return_vjps E n vjps), cached_jac, evs0 @ [ExecuteFn vjp_tapes []]))
                   else
                     (let (vjp_tapes, processing_fn) = batch_vjp E tapes dy (ShotsKw vjp_shots)
                      in case autograd_execute E vjp_tapes device gradient_fn gradient_kwargs
                                (n + 1) max_diff of
                           (Inl e, _, evs1) \<Rightarrow> (Inl e, cached_jac, evs0 @ evs1)
                         | (Inr out, _, evs1) \<Rightarrow>
                             (let vjps = processing_fn out
                              in (Inr (return_vjps E n vjps), cached_jac, evs0 @ evs1))))
                else
                  (case gradient_fn of
                     None \<Rightarrow> (Inl TypeError, cached_jac, evs0)
                   | Some gf \<Rightarrow>
                       (let unwrapped_tapes = map convert_to_numpy_parameters tapes;
                            jacs = on_batch gf unwrapped_tapes gradient_kwargs
                        in (ebind (autograd__compute_vjps_autograd E jacs dy multi_measurements
                                     has_partitioned)
                              (\<lambda>vjps. Inr (return_vjps E n vjps)),
                            cached_jac, evs0 @ [GradientFn unwrapped_tapes gradient_kwargs])))))"

text \<open>The host AD engine may invoke the closure \<^verbatim>\<open>grad_fn\<close> returned by one call of \<^verbatim>\<open>vjp\<close>
  several times, with different cotangents; the cache created by that call of \<^verbatim>\<open>vjp\<close> is
  threaded through the invocations. The result lists each outcome, the final cache and all
  events in order.\<close>

fun invoke_all ::
  "('c \<Rightarrow> 'y \<Rightarrow> 'o \<times> 'c \<times> 'e list) \<Rightarrow> 'c \<Rightarrow> 'y list \<Rightarrow> 'o list \<times> 'c \<times> 'e list" where
  "invoke_all grad_fn cache [] = ([], cache, [])"
| "invoke_all grad_fn cache (dy # dys) =
     (case grad_fn cache dy of
        (out, cache1, evs1) \<Rightarrow>
          (case invoke_all grad_fn cache1 dys of
             (outs, cache2, evs2) \<Rightarrow> (out # outs, cache2, evs1 @ evs2)))"

text \<open>The backend calls among the events.\<close>

definition backend_calls :: "'a event list \<Rightarrow> 'a event list" where
  "backend_calls evs = filter (\<lambda>ev. case ev of ExecuteFn _ _ \<Rightarrow> True | _ \<Rightarrow> False) evs"

section \<open>Collaborators made concrete\<close>

text \<open>Modelled from the spec: \<^verbatim>\<open>qml.math.stack\<close> and \<^verbatim>\<open>qml.math.sum\<close> are not in the two
  modules. The spec: the per-group contributions are summed to produce the tape's total
  derivative contribution. A contribution is a one-dimensional array; stacking needs at
  least one array and arrays of one length, and the sum along axis 0 adds the arrays
  elementwise.\<close>

definition sum_of_stack :: "'b::monoid_add list list \<Rightarrow> 'b list option" where
  "sum_of_stack shot_vjps =
     (case shot_vjps of
        [] \<Rightarrow> None
      | v # vs \<Rightarrow>
          if list_all (\<lambda>u. length u = length v) vs
          then Some (map (\<lambda>k. sum_list (map (\<lambda>u. u ! k) shot_vjps)) [0..<length v])
          else None)"

subsection \<open>Tapes as objects\<close>

text \<open>Tapes are Python objects. A store lists the tape objects that exist; a reference is a
  position in it, and creating an object appends it.\<close>

type_synonym 'a store = "'a tape list"

definition new_tape :: "'a store \<Rightarrow> 'a tape \<Rightarrow> nat \<times> 'a store" where
  "new_tape s t = (length s, s @ [t])"

text \<open>Modelled from the spec: \<^verbatim>\<open>tape.bind_new_parameters\<close> and
  \<^verbatim>\<open>convert_to_numpy_parameters\<close> are not in the two modules. The spec: the substitution
  produces new tape instances (``bind new parameters, get a new tape''), then converted to
  concrete numeric form.\<close>

definition obj_bind_new_parameters ::
  "'a store \<Rightarrow> nat \<Rightarrow> 'a param list \<Rightarrow> nat list \<Rightarrow> nat \<times> 'a store" where
  "obj_bind_new_parameters s t a indices = new_tape s (bind_new_parameters (s ! t) a indices)"

definition obj_convert_to_numpy_parameters :: "'a store \<Rightarrow> nat \<Rightarrow> nat \<times> 'a store" where
  "obj_convert_to_numpy_parameters s t = new_tape s (convert_to_numpy_parameters (s ! t))"

text \<open>\<^verbatim>\<open>_set_copy_and_unwrap_tape\<close> and \<^verbatim>\<open>set_parameters_on_copy_and_unwrap\<close> of the JAX
  module on tape objects: the generator runs over \<^verbatim>\<open>zip(tapes, params)\<close> in order.\<close>

definition obj__set_copy_and_unwrap_tape ::
  "'a store \<Rightarrow> nat \<Rightarrow> 'a param list \<Rightarrow> bool \<Rightarrow> nat \<times> 'a store" where
  "obj__set_copy_and_unwrap_tape s t a unwrap_flag =
     (let (tc, s1) = obj_bind_new_parameters s t a (trainable_params (s ! t))
      in if unwrap_flag then obj_convert_to_numpy_parameters s1 tc else (tc, s1))"

fun obj_set_parameters_on_copy_and_unwrap ::
  "'a store \<Rightarrow> nat list \<Rightarrow> 'a param list list \<Rightarrow> bool \<Rightarrow> nat list \<times> 'a store" where
  "obj_set_parameters_on_copy_and_unwrap s (t # tapes) (a # params) unwrap_flag =
     (let (r, s1) = obj__set_copy_and_unwrap_tape s t a unwrap_flag;
          (rs, s2) = obj_set_parameters_on_copy_and_unwrap s1 tapes params unwrap_flag
      in (r # rs, s2))"
| "obj_set_parameters_on_copy_and_unwrap s tapes params unwrap_flag = ([], s)"

subsection \<open>Events of interest\<close>

text \<open>The entries into \<^verbatim>\<open>execute\<close> among the events, as pairs \<^verbatim>\<open>(_n, max_diff)\<close>.\<close>

definition execute_entries :: "'a event list \<Rightarrow> (int \<times> int) list" where
  "execute_entries evs =
     concat (map (\<lambda>ev. case ev of Execute n max_diff \<Rightarrow> [(n, max_diff)] | _ \<Rightarrow> []) evs)"

text \<open>The entries into any execution entry point (\<^verbatim>\<open>execute\<close>, \<^verbatim>\<open>_execute_legacy\<close>,
  \<^verbatim>\<open>execute_legacy\<close>) among the events.\<close>

definition entry_events :: "'a event list \<Rightarrow> 'a event list" where
  "entry_events evs =
     filter (\<lambda>ev. case ev of Execute _ _ \<Rightarrow> True | ExecuteLegacy _ _ \<Rightarrow> True | _ \<Rightarrow> False) evs"


subsection \<open>A concrete environment\<close>

text \<open>A small backend and gradient rule on integers, for evaluating the functions above on
  concrete batches.\<close>

definition demo_env :: "(int, int list, int list) env" where
  "demo_env =
     \<lparr>execute_fn = (\<lambda>tapes kw.
         (map (\<lambda>t. if has_counts t then Dict [(''0'', 3), (''1'', 7)]
                   else NdArray False [int (length (data t)), 7]) tapes, [])),
      batch_vjp = (\<lambda>tapes dy sk.
         (tapes, \<lambda>res. map (\<lambda>r. case r of Raw (NdArray _ xs) \<Rightarrow> xs | _ \<Rightarrow> [1]) res)),
      batch_jvp = (\<lambda>tapes dy sk.
         (tapes, \<lambda>res. map (\<lambda>r. case r of Raw (NdArray _ xs) \<Rightarrow> xs | _ \<Rightarrow> [1]) res)),
      map_batch_transform =
        (\<lambda>f tapes. (concat (map (\<lambda>t. fst (f t)) tapes), \<lambda>res. map (\<lambda>t. snd (f t) res) tapes)),
      compute_vjp = (\<lambda>d j. map (\<lambda>(x, y). x * y) (zip d j)),
      compute_vjp_single = (\<lambda>d j. map (\<lambda>(x, y). x * y) (zip d j)),
      compute_vjp_multi = (\<lambda>d j. map (\<lambda>(x, y). x * y + 100) (zip d j)),
      compute_jvp_single = (\<lambda>d j. map (\<lambda>(x, y). x * y) (zip d j)),
      compute_jvp_multi = (\<lambda>d j. map (\<lambda>(x, y). x * y + 100) (zip d j)),
      sum_stack = sum_of_stack,
      iter = (\<lambda>v. map (\<lambda>x. [x]) v),
      iter_result = (\<lambda>r. case r of PyTuple rs \<Rightarrow> rs | PyList rs \<Rightarrow> rs | _ \<Rightarrow> []),
      math_T = (\<lambda>v. v),
      is_ArrayBox = (\<lambda>w. False),
      to_numpy = (\<lambda>w n. w),
      ndim = (\<lambda>r. case r of NdArray _ xs \<Rightarrow> 2 | _ \<Rightarrow> 0),
      swapaxes = (\<lambda>r. case r of NdArray b xs \<Rightarrow> NdArray b (rev xs) | _ \<Rightarrow> r),
      active_return = True,
      tracing = False\<rparr>"

definition demo_transform :: "(int, int list) gradient_fn" where
  "demo_transform =
     \<lparr>is_gradient_transform = True,
      fn_name = ''param_shift'',
      on_tape = (\<lambda>t sk kw. ([t, t], \<lambda>res. [int (length res)])),
      on_batch = (\<lambda>tapes kw. map (\<lambda>t. [1]) tapes)\<rparr>"

definition demo_device_method :: "(int, int list) gradient_fn" where
  "demo_device_method =
     \<lparr>is_gradient_transform = False,
      fn_name = ''gradients'',
      on_tape = (\<lambda>t sk kw. ([], \<lambda>res. [])),
      on_batch = (\<lambda>tapes kw. map (\<lambda>t. [2]) tapes)\<rparr>"

definition expval :: measurement where
  "expval = \<lparr>mp_class = ExpectationMP, wires = [0]\<rparr>"

definition probs :: measurement where
  "probs = \<lparr>mp_class = ProbabilityMP, wires = [0]\<rparr>"

definition counts :: measurement where
  "counts = \<lparr>mp_class = CountsMP, wires = [0]\<rparr>"

text \<open>A tape with one traced parameter whose trainable-parameter annotation is still
  empty, and variations of it.\<close>

definition demo_tape :: "int tape" where
  "demo_tape =
     \<lparr>data = [Tracer 5], trainable_params = [], measurements = [expval], batch_size = None,
      output_dim = 1, has_partitioned_shots = False, shot_vector = []\<rparr>"

definition demo_probs_tape :: "int tape" where
  "demo_probs_tape = demo_tape\<lparr>measurements := [probs, probs]\<rparr>"

definition demo_counts_tape :: "int tape" where
  "demo_counts_tape = demo_tape\<lparr>measurements := [counts]\<rparr>"

definition demo_mixed_tape :: "int tape" where
  "demo_mixed_tape = demo_tape\<lparr>measurements := [probs, expval]\<rparr>"

text \<open>The same tapes with the annotation that an entry point at depth 1 leaves (the one
  traced parameter is trainable), and a broadcasted counts tape.\<close>

definition demo_trainable_tape :: "int tape" where
  "demo_trainable_tape = demo_tape\<lparr>trainable_params := [0]\<rparr>"

definition demo_trainable_counts_tape :: "int tape" where
  "demo_trainable_counts_tape = demo_counts_tape\<lparr>trainable_params := [0]\<rparr>"

definition demo_broadcasted_counts_tape :: "int tape" where
  "demo_broadcasted_counts_tape =
     demo_counts_tape\<lparr>trainable_params := [0], batch_size := Some 2\<rparr>"



section \<open>Properties\<close>

subsection \<open>Auxiliary facts\<close>

lemma emap_Inr: "(\<And>x. x \<in> set xs \<Longrightarrow> f x = Inr (g x)) \<Longrightarrow> emap f xs = Inr (map g xs)"
  by (induction xs) auto

lemma emap_Inl: "emap f xs = Inl e \<Longrightarrow> \<exists>x \<in> set xs. f x = Inl e"
  by (induction xs) (auto split: sum.splits)

lemma use_cache_param_shift:
  "fn_name gf = ''param_shift'' \<Longrightarrow> use_cache (Some gf) True = Some gf"
  by (simp add: use_cache_def)

lemma get_jac_fresh_exact:
  assumes "device_shots device tapes = Inr (hp, vs)"
  shows "autograd_vjp_get_jac_with_caching E tapes device gf kw None =
     (let sv = (case device of
                  ExperimentalDevice \<Rightarrow>
                    if has_partitioned_shots (tapes ! 0) then Some (shot_vector (tapes ! 0))
                    else None
                | LegacyDevice s \<Rightarrow> s);
          g = map_batch_transform E (\<lambda>tape. on_tape gf tape (ShotsKw sv) kw) tapes;
          unwrapped_tapes = map convert_to_numpy_parameters (fst g);
          jacs = snd g (fst (execute_fn E unwrapped_tapes kw))
      in (Inr jacs, Some jacs, [ExecuteFn unwrapped_tapes kw]))"
  using assms
  by (cases device; cases tapes)
     (auto simp: autograd_vjp_get_jac_with_caching_def device_shots_def py_index_def ebind_def
        Let_def case_prod_beta)

subsection \<open>The concrete environment\<close>

lemma demo_backend:
  "execute_fn demo_env ts kw =
     (map (\<lambda>t. if has_counts t then Dict [(''0'', 3), (''1'', 7)]
               else NdArray False [int (length (data t)), 7]) ts, [])"
  by (simp add: demo_env_def)

lemma demo_has_counts:
  "has_counts (t\<lparr>data := ps\<rparr>) = has_counts t"
  "has_counts demo_counts_tape" "\<not> has_counts demo_tape"
  "has_counts (demo_counts_tape\<lparr>batch_size := b\<rparr>)"
  by (simp_all add: has_counts_def demo_counts_tape_def demo_tape_def counts_def expval_def)

lemma demo_get_parameters:
  "get_parameters demo_trainable_tape = [Tracer 5]"
  "get_parameters demo_trainable_counts_tape = [Tracer 5]"
  "get_parameters demo_broadcasted_counts_tape = [Tracer 5]"
  by (simp_all add: get_parameters_def demo_trainable_tape_def demo_trainable_counts_tape_def
      demo_broadcasted_counts_tape_def demo_counts_tape_def demo_tape_def)

lemma demo_substituted:
  "jax__set_copy_and_unwrap_tape demo_trainable_tape [Tracer x] True
     = demo_trainable_tape\<lparr>data := [Numeric x]\<rparr>"
  "jax__set_copy_and_unwrap_tape demo_trainable_tape [Tracer x] False
     = demo_trainable_tape\<lparr>data := [Tracer x]\<rparr>"
  "jax__set_copy_and_unwrap_tape demo_trainable_counts_tape [Tracer x] True
     = demo_trainable_counts_tape\<lparr>data := [Numeric x]\<rparr>"
  "jax__set_copy_and_unwrap_tape demo_broadcasted_counts_tape [Tracer x] True
     = demo_broadcasted_counts_tape\<lparr>data := [Numeric x]\<rparr>"
  by (simp_all add: jax__set_copy_and_unwrap_tape_def bind_new_parameters_def
      convert_to_numpy_parameters_def unwrap_def demo_trainable_tape_def
      demo_trainable_counts_tape_def demo_broadcasted_counts_tape_def demo_counts_tape_def
      demo_tape_def)

lemma demo_unwrapped:
  "convert_to_numpy_parameters demo_trainable_tape = demo_trainable_tape\<lparr>data := [Numeric 5]\<rparr>"
  "convert_to_numpy_parameters demo_trainable_counts_tape
     = demo_trainable_counts_tape\<lparr>data := [Numeric 5]\<rparr>"
  by (simp_all add: convert_to_numpy_parameters_def unwrap_def demo_trainable_tape_def
      demo_trainable_counts_tape_def demo_counts_tape_def demo_tape_def)

lemma demo_trainable_counts:
  "has_counts demo_trainable_counts_tape" "has_counts demo_broadcasted_counts_tape"
  "\<not> has_counts demo_trainable_tape"
  "batch_size demo_trainable_counts_tape = None" "batch_size demo_trainable_tape = None"
  "batch_size demo_broadcasted_counts_tape = Some 2"
  "data (demo_trainable_tape\<lparr>data := ps\<rparr>) = ps"
  by (simp_all add: has_counts_def demo_trainable_counts_tape_def demo_broadcasted_counts_tape_def
      demo_trainable_tape_def demo_counts_tape_def demo_tape_def counts_def expval_def)

lemma demo_batch_valid:
  "validate_tape (demo_counts_tape\<lparr>batch_size := Some 2\<rparr>) = Inr ()"
  "validate_tape demo_tape = Inr ()"
  by (simp_all add: validate_tape_def demo_counts_tape_def demo_tape_def counts_def expval_def)

lemma demo_annotated:
  "set_trainable (demo_counts_tape\<lparr>batch_size := Some 2\<rparr>) = demo_broadcasted_counts_tape"
  "set_trainable demo_tape = demo_trainable_tape"
  by (simp_all add: set_trainable_def get_trainable_indices_def get_parameters_all_def
      requires_grad_def demo_broadcasted_counts_tape_def demo_trainable_tape_def
      demo_counts_tape_def demo_tape_def)

lemma demo_device_method_terminal: "\<not> is_gradient_transform demo_device_method"
  by (simp add: demo_device_method_def)

lemma demo_device_method_uncached:
  "use_cache (Some demo_device_method) b = None"
  by (simp add: use_cache_def demo_device_method_def)

lemma demo_device_shots:
  "device_shots (LegacyDevice None) tapes = Inr (False, None)"
  by (simp add: device_shots_def truthy_shots_def)

lemma demo_transform_name: "fn_name demo_transform = ''param_shift''"
  by (simp add: demo_transform_def)

lemma demo_cv:
  "compute_vjp demo_env d j = map (\<lambda>(x, y). x * y) (zip d j)"
  "compute_vjp_single demo_env d j = map (\<lambda>(x, y). x * y) (zip d j)"
  "compute_jvp_single demo_env d j = map (\<lambda>(x, y). x * y) (zip d j)"
  "math_T demo_env v = v"
  "sum_stack demo_env = sum_of_stack"
  "return_vjps demo_env k w = w"
  "iter demo_env v = map (\<lambda>x. [x]) v"
  by (simp_all add: demo_env_def return_vjps_def)

lemma demo_batch_transform:
  "map_batch_transform demo_env f tapes
     = (concat (map (\<lambda>t. fst (f t)) tapes), \<lambda>res. map (\<lambda>t. snd (f t) res) tapes)"
  by (simp add: demo_env_def)

lemma demo_on_tape:
  "on_tape demo_transform t sk kw = ([t, t], \<lambda>res. [int (length res)])"
  by (simp add: demo_transform_def)






subsection \<open>The legacy JAX paths\<close>

lemma jax__raise_vector_valued_fwd_iff:
  "jax__raise_vector_valued_fwd tapes =
     (if (\<exists>t \<in> set tapes. output_dim t \<noteq> 1)
      then Inl (InterfaceUnsupportedError
        ''Computing the jacobian of vector-valued tapes is not supported currently in forward mode.'')
      else Inr ())"
  by (auto simp: jax__raise_vector_valued_fwd_def list_all_iff)

text \<open>C7: in the legacy JAX forward-mode path the backward rule raises
  \<^verbatim>\<open>InterfaceUnsupportedError\<close> exactly when some tape of the batch has \<^verbatim>\<open>output_dim\<close>
  different from 1; when every tape has \<^verbatim>\<open>output_dim\<close> 1 nothing is raised and the stored
  forward-pass Jacobians are reshaped and returned.\<close>

theorem vector_valued_fwd_error_iff:
  "jax__execute_fwd_legacy_wrapped_exec_bwd tapes (jacs, params) g =
     (if (\<exists>t \<in> set tapes. output_dim t \<noteq> 1)
      then Inl (InterfaceUnsupportedError
        ''Computing the jacobian of vector-valued tapes is not supported currently in forward mode.'')
      else Inr [map reshape_jac jacs])"
  by (simp add: jax__execute_fwd_legacy_wrapped_exec_bwd_def jax__raise_vector_valued_fwd_iff
      ebind_def)

text \<open>A batch with a tape of \<^verbatim>\<open>output_dim\<close> 2 is refused; a batch of scalar tapes with a
  1-by-2 and a 2-by-1 Jacobian gives two scalars and one column.\<close>

theorem vector_valued_fwd_error_iff_witness:
  "jax__execute_fwd_legacy_wrapped_exec_bwd [demo_tape, demo_tape\<lparr>output_dim := 2\<rparr>]
      ([\<lparr>shape0 = 1, shape1 = 2, entry = (\<lambda>k i. int (10 * k + i))\<rparr>], [[Tracer (5::int)]]) ()
    = Inl (InterfaceUnsupportedError
        ''Computing the jacobian of vector-valued tapes is not supported currently in forward mode.'')
  \<and> jax__execute_fwd_legacy_wrapped_exec_bwd [demo_tape, demo_tape]
      ([\<lparr>shape0 = 1, shape1 = 2, entry = (\<lambda>k i. int (10 * k + i))\<rparr>,
        \<lparr>shape0 = 2, shape1 = 1, entry = (\<lambda>k i. int (10 * k + i))\<rparr>], [[Tracer (5::int)]]) ()
    = Inr [[[Scalar 0, Scalar 1], [Column [0, 10]]]]"
  using vector_valued_fwd_error_iff [of "[demo_tape, demo_tape\<lparr>output_dim := 2\<rparr>]"
      "[\<lparr>shape0 = 1, shape1 = 2, entry = (\<lambda>k i. int (10 * k + i))\<rparr>]" "[[Tracer (5::int)]]" "()"]
    vector_valued_fwd_error_iff [of "[demo_tape, demo_tape]"
      "[\<lparr>shape0 = 1, shape1 = 2, entry = (\<lambda>k i. int (10 * k + i))\<rparr>,
        \<lparr>shape0 = 2, shape1 = 1, entry = (\<lambda>k i. int (10 * k + i))\<rparr>]" "[[Tracer (5::int)]]" "()"]
  by (simp add: demo_tape_def reshape_jac_def upt_rec)

text \<open>C10: \<^verbatim>\<open>execute_legacy\<close> raises \<^verbatim>\<open>InterfaceUnsupportedError\<close> whenever
  \<^verbatim>\<open>max_diff > 1\<close>, whatever the gradient rule and the nesting depth, before the tapes are
  validated, before any trainable-parameter annotation changes and before any backend call:
  the tapes are as they were and the only event is the entry itself.\<close>

theorem execute_legacy_first_order_only:
  "max_diff > 1 \<Longrightarrow>
     jax_execute_legacy E tapes gradient_fn gradient_kwargs n max_diff =
       (Inl (InterfaceUnsupportedError ''The JAX interface only supports first order derivatives.''),
        tapes, [ExecuteLegacy n max_diff])"
  by (simp add: jax_execute_legacy_def)

text \<open>With \<^verbatim>\<open>max_diff = 2\<close>, a tape that validation would refuse (a probability measurement
  mixed with an expectation value) never reaches validation.\<close>

theorem execute_legacy_first_order_only_witness:
  "jax_execute_legacy demo_env [demo_mixed_tape] (Some demo_transform) [] 1 2 =
     (Inl (InterfaceUnsupportedError ''The JAX interface only supports first order derivatives.''),
      [demo_mixed_tape], [ExecuteLegacy 1 2])
   \<and> jax__validate_tapes [demo_mixed_tape] = Inl (InterfaceUnsupportedError
        ''Using the JAX interface, sample and probability measurements cannot be mixed with other measurement types.'')"
  using execute_legacy_first_order_only [of 2 demo_env "[demo_mixed_tape]" "Some demo_transform" "[]" 1]
  by (simp add: demo_mixed_tape_def demo_tape_def validate_tape_def probs_def expval_def)

lemma multi_probs_loop_last:
  "tapes \<noteq> [] \<Longrightarrow> multi_probs_loop tapes = Some (multi_probs_of (last tapes))"
proof -
  have "\<And>acc. tapes \<noteq> [] \<Longrightarrow>
      fold (\<lambda>t multi_probs. Some (multi_probs_of t)) tapes acc = Some (multi_probs_of (last tapes))"
    by (induction tapes) auto
  then show "tapes \<noteq> [] \<Longrightarrow> ?thesis" by (simp add: multi_probs_loop_def)
qed

lemma adjust_partial_res_last:
  "tapes \<noteq> [] \<Longrightarrow>
     adjust_partial_res E tapes partial_res =
       Inr (if multi_probs_of (last tapes)
            then map (\<lambda>r. if ndim E r > 1 then swapaxes E r else r) partial_res
            else partial_res)"
  by (simp add: adjust_partial_res_def multi_probs_loop_last)

text \<open>C5: in the legacy JAX backward rule with a gradient transform, the axis swap is
  applied to every partial result with \<^verbatim>\<open>ndim > 1\<close>, of all tapes, exactly when the last
  tape of the batch has a probability measurement among more than one measurement; no
  other tape takes part in the decision.\<close>

theorem axis_swap_decided_by_last_tape:
  assumes "gradient_fn = Some gf" and "is_gradient_transform gf" and "tapes \<noteq> []"
  shows "fst (jax__execute_legacy_wrapped_exec_bwd E tapes gradient_fn gradient_kwargs params g) =
     (let new_tapes = set_parameters_on_copy_and_unwrap tapes params True;
          (vjp_tapes, processing_fn) = batch_vjp E new_tapes g NoShotsKw;
          partial_res = fst (execute_fn E vjp_tapes []);
          adjusted = (if multi_probs_of (last tapes)
                      then map (\<lambda>r. if ndim E r > 1 then swapaxes E r else r) partial_res
                      else partial_res)
      in ebind (jnp_concatenate (processing_fn (map Raw adjusted)))
           (\<lambda>vjps. Inr [group_vjps vjps params 0]))"
  using assms
  by (simp add: jax__execute_legacy_wrapped_exec_bwd_def adjust_partial_res_last Let_def ebind_def
      split: prod.splits)

text \<open>The same two tapes in the two orders: with the two-probability tape last, the partial
  results of both tapes are swapped (here: reversed); with it first, none is.\<close>

theorem axis_swap_decided_by_last_tape_witness:
  "fst (jax__execute_legacy_wrapped_exec_bwd demo_env [demo_tape, demo_probs_tape]
          (Some demo_transform) [] [[Tracer 5], [Tracer 6]] [[1], [1]])
     = Inr [[[7], [1]]]
   \<and> fst (jax__execute_legacy_wrapped_exec_bwd demo_env [demo_probs_tape, demo_tape]
          (Some demo_transform) [] [[Tracer 5], [Tracer 6]] [[1], [1]])
     = Inr [[[1], [7]]]"
  using axis_swap_decided_by_last_tape [of "Some demo_transform" demo_transform
          "[demo_tape, demo_probs_tape]" demo_env "[]" "[[Tracer 5], [Tracer 6]]" "[[1], [1]]"]
        axis_swap_decided_by_last_tape [of "Some demo_transform" demo_transform
          "[demo_probs_tape, demo_tape]" demo_env "[]" "[[Tracer 5], [Tracer 6]]" "[[1], [1]]"]
  by (simp add: demo_transform_def demo_env_def demo_tape_def demo_probs_tape_def
      multi_probs_of_def probs_def expval_def set_parameters_on_copy_and_unwrap_def
      jax__set_copy_and_unwrap_tape_def bind_new_parameters_def convert_to_numpy_parameters_def
      jnp_concatenate_def ebind_def Let_def has_counts_def unwrap_def)

subsection \<open>The trainable-parameter annotation\<close>

lemma jax_execute_tapes:
  "fst (snd (jax_execute E tapes device gradient_fn gradient_kwargs n max_diff)) =
     (if n = 1 then map set_trainable tapes else tapes)"
  by (simp add: jax_execute_def Let_def split: prod.splits)

lemma jax_execute_legacy_tapes:
  "fst (snd (jax_execute_legacy E tapes gradient_fn gradient_kwargs n max_diff)) =
     (if max_diff \<le> 1 \<and> jax__validate_tapes tapes = Inr () \<and> n = 1
      then map set_trainable tapes else tapes)"
  by (auto simp: jax_execute_legacy_def Let_def split: prod.splits sum.splits)

lemma autograd__execute_legacy_tapes:
  "fst (snd (autograd__execute_legacy E tapes device gradient_fn gradient_kwargs n max_diff)) =
     map set_trainable tapes"
  by (simp add: autograd__execute_legacy_def Let_def split: prod.splits)

lemma autograd_execute_tapes:
  "fst (snd (autograd_execute E tapes device gradient_fn gradient_kwargs n max_diff)) =
     map set_trainable tapes"
proof (cases "active_return E")
  case True
  then show ?thesis by (simp add: autograd_execute_def Let_def split: prod.splits)
next
  case False
  then show ?thesis
    using autograd__execute_legacy_tapes [of E tapes device gradient_fn gradient_kwargs n max_diff]
    by (auto simp: autograd_execute_def split: prod.splits)
qed

lemma set_trainable_demo_tape: "set_trainable demo_tape = demo_tape\<lparr>trainable_params := [0]\<rparr>"
  by (simp add: set_trainable_def demo_tape_def get_trainable_indices_def get_parameters_all_def
      requires_grad_def)

lemma demo_tape_valid: "jax__validate_tapes [demo_tape] = Inr ()"
  by (simp add: validate_tape_def demo_tape_def expval_def)

text \<open>C2, as the code has it: the JAX entry points recompute each tape's trainable-parameter
  indices from its full parameter list exactly when \<^verbatim>\<open>_n == 1\<close> (\<^verbatim>\<open>execute_legacy\<close>: when
  moreover it raises neither for \<^verbatim>\<open>max_diff\<close> nor in validation) and leave the tapes as they
  are otherwise; the Autograd entry points \<^verbatim>\<open>execute\<close> and \<^verbatim>\<open>_execute_legacy\<close> recompute
  them on every call, whatever \<^verbatim>\<open>_n\<close>.\<close>

theorem trainable_params_recomputed:
  "fst (snd (jax_execute E tapes device gradient_fn gradient_kwargs n max_diff)) =
     (if n = 1 then map set_trainable tapes else tapes)
   \<and> fst (snd (jax_execute_legacy E tapes gradient_fn gradient_kwargs n max_diff)) =
     (if max_diff \<le> 1 \<and> jax__validate_tapes tapes = Inr () \<and> n = 1
      then map set_trainable tapes else tapes)
   \<and> fst (snd (autograd_execute E tapes device gradient_fn gradient_kwargs n max_diff)) =
     map set_trainable tapes
   \<and> fst (snd (autograd__execute_legacy E tapes device gradient_fn gradient_kwargs n max_diff)) =
     map set_trainable tapes
   \<and> set_trainable t = t\<lparr>trainable_params := get_trainable_indices (get_parameters_all t)\<rparr>"
  by (simp add: jax_execute_tapes jax_execute_legacy_tapes autograd_execute_tapes
      autograd__execute_legacy_tapes set_trainable_def)

text \<open>A tape with one traced parameter and a stale, empty annotation, through the four entry
  points at depth 1 and at depth 2.\<close>

theorem trainable_params_recomputed_witness:
  "fst (snd (jax_execute demo_env [demo_tape] (LegacyDevice None) (Some demo_transform) [] 1 2))
     = [demo_tape\<lparr>trainable_params := [0]\<rparr>]
   \<and> fst (snd (jax_execute demo_env [demo_tape] (LegacyDevice None) (Some demo_transform) [] 2 2))
     = [demo_tape]
   \<and> fst (snd (jax_execute_legacy demo_env [demo_tape] (Some demo_transform) [] 1 1))
     = [demo_tape\<lparr>trainable_params := [0]\<rparr>]
   \<and> fst (snd (jax_execute_legacy demo_env [demo_tape] (Some demo_transform) [] 2 1))
     = [demo_tape]
   \<and> fst (snd (autograd_execute demo_env [demo_tape] (LegacyDevice None) (Some demo_transform) [] 2 2))
     = [demo_tape\<lparr>trainable_params := [0]\<rparr>]
   \<and> fst (snd (autograd__execute_legacy demo_env [demo_tape] (LegacyDevice None)
                 (Some demo_transform) [] 2 2))
     = [demo_tape\<lparr>trainable_params := [0]\<rparr>]"
  using trainable_params_recomputed [of demo_env "[demo_tape]" "LegacyDevice None"
          "Some demo_transform" "[]" 1 2 demo_tape]
    trainable_params_recomputed [of demo_env "[demo_tape]" "LegacyDevice None"
          "Some demo_transform" "[]" 2 2 demo_tape]
    trainable_params_recomputed [of demo_env "[demo_tape]" "LegacyDevice None"
          "Some demo_transform" "[]" 1 1 demo_tape]
    trainable_params_recomputed [of demo_env "[demo_tape]" "LegacyDevice None"
          "Some demo_transform" "[]" 2 1 demo_tape]
    demo_tape_valid
  by (simp add: set_trainable_demo_tape)

text \<open>C2 as stated fails on the Autograd module: a nested call (\<^verbatim>\<open>_n = 2\<close>) of its
  \<^verbatim>\<open>execute\<close> changes the annotation of the tape from \<open>[]\<close> to \<open>[0]\<close>.\<close>

theorem nested_autograd_call_recomputes:
  "map trainable_params [demo_tape] = [[]]
   \<and> map trainable_params
       (fst (snd (autograd_execute demo_env [demo_tape] (LegacyDevice None)
                    (Some demo_transform) [] 2 2)))
     = [[0]]"
  by (simp add: autograd_execute_tapes set_trainable_demo_tape) (simp add: demo_tape_def)

subsection \<open>Parameter substitution\<close>


lemma new_tape_frame:
  "new_tape s t = (r, s') \<Longrightarrow> r = length s \<and> s' = s @ [t]"
  by (auto simp: new_tape_def)

lemma obj__set_copy_and_unwrap_tape_eq:
  "obj__set_copy_and_unwrap_tape s t a u =
     (if u then (Suc (length s),
                 s @ [bind_new_parameters (s ! t) a (trainable_params (s ! t)),
                      jax__set_copy_and_unwrap_tape (s ! t) a True])
      else (length s, s @ [jax__set_copy_and_unwrap_tape (s ! t) a False]))"
  by (simp add: obj__set_copy_and_unwrap_tape_def obj_bind_new_parameters_def
      obj_convert_to_numpy_parameters_def new_tape_def jax__set_copy_and_unwrap_tape_def Let_def
      nth_append)

lemma obj_set_parameters_frame:
  "obj_set_parameters_on_copy_and_unwrap s tapes params u = (rs, s') \<Longrightarrow>
     (\<exists>ext. s' = s @ ext) \<and> (\<forall>r \<in> set rs. length s \<le> r \<and> r < length s')"
proof (induction s tapes params u arbitrary: rs s' rule: obj_set_parameters_on_copy_and_unwrap.induct)
  case (1 s t tapes a params u)
  obtain r s1 where step: "obj__set_copy_and_unwrap_tape s t a u = (r, s1)"
    by (cases "obj__set_copy_and_unwrap_tape s t a u")
  obtain rs2 s2 where rest: "obj_set_parameters_on_copy_and_unwrap s1 tapes params u = (rs2, s2)"
    by (cases "obj_set_parameters_on_copy_and_unwrap s1 tapes params u")
  from "1.prems" step rest have eq: "rs = r # rs2" "s' = s2" by simp_all
  from step have s1: "(\<exists>e. s1 = s @ e) \<and> length s \<le> r \<and> r < length s1"
    by (auto simp: obj__set_copy_and_unwrap_tape_eq split: if_splits)
  from "1.IH" [OF step [symmetric] refl rest]
  have ih: "(\<exists>ext. s2 = s1 @ ext) \<and> (\<forall>r \<in> set rs2. length s1 \<le> r \<and> r < length s2)" .
  from s1 ih eq show ?case by (auto simp: less_le_trans)
qed simp_all


lemma obj_set_parameters_length:
  "obj_set_parameters_on_copy_and_unwrap s tapes params u = (rs, s') \<Longrightarrow>
     length rs = min (length tapes) (length params)"
proof (induction s tapes params u arbitrary: rs s' rule: obj_set_parameters_on_copy_and_unwrap.induct)
  case (1 s t tapes a params u)
  obtain r s1 where step: "obj__set_copy_and_unwrap_tape s t a u = (r, s1)"
    by (cases "obj__set_copy_and_unwrap_tape s t a u")
  obtain rs2 s2 where rest: "obj_set_parameters_on_copy_and_unwrap s1 tapes params u = (rs2, s2)"
    by (cases "obj_set_parameters_on_copy_and_unwrap s1 tapes params u")
  from "1.prems" step rest have eq: "rs = r # rs2" by simp
  from "1.IH" [OF step [symmetric] refl rest] eq show ?case by simp
qed simp_all

lemma obj_set_parameters_contents:
  "obj_set_parameters_on_copy_and_unwrap s tapes params u = (rs, s') \<Longrightarrow>
   \<forall>t \<in> set tapes. t < length s \<Longrightarrow>
     map (\<lambda>r. s' ! r) rs = set_parameters_on_copy_and_unwrap (map (\<lambda>t. s ! t) tapes) params u"
proof (induction s tapes params u arbitrary: rs s' rule: obj_set_parameters_on_copy_and_unwrap.induct)
  case (1 s t tapes a params u)
  obtain r s1 where step: "obj__set_copy_and_unwrap_tape s t a u = (r, s1)"
    by (cases "obj__set_copy_and_unwrap_tape s t a u")
  obtain rs2 s2 where rest: "obj_set_parameters_on_copy_and_unwrap s1 tapes params u = (rs2, s2)"
    by (cases "obj_set_parameters_on_copy_and_unwrap s1 tapes params u")
  from "1.prems" step rest have eq: "rs = r # rs2" "s' = s2" by simp_all
  from step obtain e where s1: "s1 = s @ e" "r < length s1"
    "s1 ! r = jax__set_copy_and_unwrap_tape (s ! t) a u"
    by (auto simp: obj__set_copy_and_unwrap_tape_eq nth_append split: if_splits)
  from obj_set_parameters_frame [OF rest] obtain ext where s2: "s2 = s1 @ ext" by blast
  have valid: "\<forall>t \<in> set tapes. t < length s1" using "1.prems"(2) s1(1) by auto
  have same: "map (\<lambda>t. s1 ! t) tapes = map (\<lambda>t. s ! t) tapes"
    using "1.prems"(2) s1(1) by (auto simp: nth_append)
  from "1.IH" [OF step [symmetric] refl rest valid] same
  have ih: "map (\<lambda>r. s2 ! r) rs2 = set_parameters_on_copy_and_unwrap (map (\<lambda>t. s ! t) tapes) params u"
    by simp
  have "s2 ! r = s1 ! r"
    using s1(2) s2 by (simp only: nth_append if_True)
  then have "s2 ! r = jax__set_copy_and_unwrap_tape (s ! t) a u"
    using s1(3) by simp
  with ih eq show ?case by (simp add: set_parameters_on_copy_and_unwrap_def)
qed (simp_all add: set_parameters_on_copy_and_unwrap_def)

text \<open>C9: on a store of tape objects, \<^verbatim>\<open>set_parameters_on_copy_and_unwrap\<close> returns references
  to tape objects created by the call (through \<^verbatim>\<open>bind_new_parameters\<close> and the conversion to
  concrete numeric form), one per pair of \<^verbatim>\<open>zip(tapes, params)\<close>, and every tape object that
  existed before the call is unchanged in all its fields; the new objects hold the tapes
  that the functional reading of the substitution computes.\<close>

theorem substitution_leaves_original_tapes:
  assumes "obj_set_parameters_on_copy_and_unwrap s tapes params u = (rs, s')"
  shows "take (length s) s' = s
       \<and> (\<forall>r \<in> set rs. length s \<le> r \<and> r < length s')
       \<and> length rs = min (length tapes) (length params)
       \<and> ((\<forall>t \<in> set tapes. t < length s) \<longrightarrow>
            map (\<lambda>r. s' ! r) rs =
              set_parameters_on_copy_and_unwrap (map (\<lambda>t. s ! t) tapes) params u)"
  using obj_set_parameters_frame [OF assms] obj_set_parameters_length [OF assms]
    obj_set_parameters_contents [OF assms]
  by auto


text \<open>Two tape objects, substituted in the order second, first: four objects are created
  (a bound copy and its unwrapped copy for each), the two returned are the unwrapped ones,
  and the first two positions of the store are as before.\<close>

theorem substitution_leaves_original_tapes_witness:
  "obj_set_parameters_on_copy_and_unwrap
      [demo_tape, demo_tape\<lparr>data := [Tracer 1, Numeric 2], trainable_params := [0]\<rparr>]
      [1, 0] [[Tracer 8], [Tracer 9]] True
    = ([3, 5],
       [demo_tape, demo_tape\<lparr>data := [Tracer 1, Numeric 2], trainable_params := [0]\<rparr>,
        demo_tape\<lparr>data := [Tracer 8, Numeric 2], trainable_params := [0]\<rparr>,
        demo_tape\<lparr>data := [Numeric 8, Numeric 2], trainable_params := [0]\<rparr>,
        demo_tape,
        demo_tape\<lparr>data := [Numeric 5]\<rparr>])
   \<and> take 2 (snd (obj_set_parameters_on_copy_and_unwrap
      [demo_tape, demo_tape\<lparr>data := [Tracer 1, Numeric 2], trainable_params := [0]\<rparr>]
      [1, 0] [[Tracer 8], [Tracer 9]] True))
     = [demo_tape, demo_tape\<lparr>data := [Tracer 1, Numeric 2], trainable_params := [0]\<rparr>]"
proof -
  have run: "obj_set_parameters_on_copy_and_unwrap
      [demo_tape, demo_tape\<lparr>data := [Tracer 1, Numeric 2], trainable_params := [0]\<rparr>]
      [1, 0] [[Tracer 8], [Tracer 9]] True
    = ([3, 5],
       [demo_tape, demo_tape\<lparr>data := [Tracer 1, Numeric 2], trainable_params := [0]\<rparr>,
        demo_tape\<lparr>data := [Tracer 8, Numeric 2], trainable_params := [0]\<rparr>,
        demo_tape\<lparr>data := [Numeric 8, Numeric 2], trainable_params := [0]\<rparr>,
        demo_tape,
        demo_tape\<lparr>data := [Numeric 5]\<rparr>])"
    by (simp add: obj__set_copy_and_unwrap_tape_eq jax__set_copy_and_unwrap_tape_def
        bind_new_parameters_def convert_to_numpy_parameters_def unwrap_def demo_tape_def)
  from substitution_leaves_original_tapes [OF run] run show ?thesis by simp
qed

subsection \<open>The VJP of a batch from its Jacobians\<close>


lemma sum_of_stack_same_length:
  "vs \<noteq> [] \<Longrightarrow> \<forall>v \<in> set vs. length v = p \<Longrightarrow>
     sum_of_stack vs = Some (map (\<lambda>k. sum_list (map (\<lambda>u. u ! k) vs)) [0..<p])"
  by (cases vs) (auto simp: sum_of_stack_def list_all_iff)

lemma sum_of_stack_single: "sum_of_stack [c] = Some c"
  by (simp add: sum_of_stack_def map_nth)

lemma map_zip_nth:
  "length xs = length ys \<Longrightarrow>
     map f (zip xs ys) = map (\<lambda>g. f (xs ! g, ys ! g)) [0..<length xs]"
  by (rule nth_equalityI) auto

lemma enumerate_Inr:
  assumes "\<And>i. i < length ms \<Longrightarrow> f (i, ms ! i) = Inr (h i)"
  shows "emap f (zip [0..<length ms] ms) = Inr (map h [0..<length ms])"
proof -
  have "emap f (zip [0..<length ms] ms) = Inr (map (\<lambda>(i, m). h i) (zip [0..<length ms] ms))"
  proof (rule emap_Inr)
    fix x assume "x \<in> set (zip [0..<length ms] ms)"
    then obtain i where "i < length ms" "x = (i, ms ! i)"
      by (auto simp: set_zip)
    then show "f x = Inr ((\<lambda>(i, m). h i) x)" using assms by simp
  qed
  moreover have "map (\<lambda>(i, m). h i) (zip [0..<length ms] ms) = map h [0..<length ms]"
    by (rule nth_equalityI) auto
  ultimately show ?thesis by simp
qed

text \<open>C6: with \<^verbatim>\<open>qml.math.sum(qml.math.stack(...), axis=0)\<close> the elementwise sum of stacked
  one-dimensional arrays, and a batch where each tape has a cotangent and a Jacobian:
  for a tape whose cotangent and Jacobian come in the same number \<open>m \<ge> 1\<close> of shot groups,
  with contributions of one length \<open>p\<close>, the tape's VJP is the elementwise sum over the \<open>m\<close>
  groups of the group's contribution, each computed by \<^verbatim>\<open>compute_vjp_multi\<close> if the tape
  has more than one measurement and by \<^verbatim>\<open>compute_vjp_single\<close> otherwise; without
  partitioned shots the tape's VJP is that contraction of its one (cotangent, Jacobian)
  pair.\<close>

theorem shot_groups_summed:
  fixes E :: "('a, 'v, 'b::monoid_add list) env"
  assumes sum: "sum_stack E = sum_of_stack"
      and len: "length dy = length mm" "length jacs = length mm"
      and groups: "has_partitioned \<Longrightarrow>
            \<forall>i < length mm.
              iter E (dy ! i) \<noteq> [] \<and> length (iter E (jacs ! i)) = length (iter E (dy ! i)) \<and>
              (\<forall>g < length (iter E (dy ! i)).
                 length (shot_vjp E (mm ! i) (iter E (dy ! i) ! g) (iter E (jacs ! i) ! g)) = p i)"
  shows "autograd__compute_vjps_autograd E jacs dy mm has_partitioned =
     Inr (map (\<lambda>i. if has_partitioned
                    then map (\<lambda>k. sum_list
                                 (map (\<lambda>g. shot_vjp E (mm ! i) (iter E (dy ! i) ! g)
                                             (iter E (jacs ! i) ! g) ! k)
                                      [0..<length (iter E (dy ! i))]))
                             [0..<p i]
                    else shot_vjp E (mm ! i) (dy ! i) (jacs ! i))
              [0..<length mm])"
  unfolding autograd__compute_vjps_autograd_def
proof (rule enumerate_Inr)
  fix i assume i: "i < length mm"
  show "(case (i, mm ! i) of (i, multi) \<Rightarrow>
          ebind (py_index dy i)
           (\<lambda>dy_i. ebind (py_index jacs i)
             (\<lambda>jac_i.
                 let dy' = if has_partitioned then iter E dy_i else [dy_i];
                     jac' = if has_partitioned then iter E jac_i else [jac_i];
                     shot_vjps = map (\<lambda>(d, j). shot_vjp E multi d j) (zip dy' jac')
                 in case sum_stack E shot_vjps of None \<Rightarrow> Inl ValueError
                    | Some summed \<Rightarrow> Inr summed))) =
        Inr (if has_partitioned
             then map (\<lambda>k. sum_list
                          (map (\<lambda>g. shot_vjp E (mm ! i) (iter E (dy ! i) ! g)
                                      (iter E (jacs ! i) ! g) ! k)
                               [0..<length (iter E (dy ! i))]))
                      [0..<p i]
             else shot_vjp E (mm ! i) (dy ! i) (jacs ! i))"
  proof (cases has_partitioned)
    case False
    with i len show ?thesis
      by (simp add: py_index_def ebind_def sum sum_of_stack_single)
  next
    case True
    let ?d = "iter E (dy ! i)" and ?j = "iter E (jacs ! i)"
    from groups [OF True] i have ne: "?d \<noteq> []" and eq: "length ?j = length ?d"
      and ps: "\<forall>g < length ?d. length (shot_vjp E (mm ! i) (?d ! g) (?j ! g)) = p i"
      by auto
    let ?vs = "map (\<lambda>(d, j). shot_vjp E (mm ! i) d j) (zip ?d ?j)"
    have vs: "?vs = map (\<lambda>g. shot_vjp E (mm ! i) (?d ! g) (?j ! g)) [0..<length ?d]"
      using map_zip_nth [of ?d ?j "\<lambda>(d, j). shot_vjp E (mm ! i) d j"] eq by simp
    have "?vs \<noteq> []" using ne eq by (cases ?d; cases ?j) auto
    moreover have "\<forall>v \<in> set ?vs. length v = p i" unfolding vs using ps by auto
    ultimately have "sum_of_stack ?vs = Some (map (\<lambda>k. sum_list (map (\<lambda>u. u ! k) ?vs)) [0..<p i])"
      by (rule sum_of_stack_same_length)
    also have "map (\<lambda>k. sum_list (map (\<lambda>u. u ! k) ?vs)) [0..<p i] =
        map (\<lambda>k. sum_list (map (\<lambda>g. shot_vjp E (mm ! i) (?d ! g) (?j ! g) ! k) [0..<length ?d]))
            [0..<p i]"
      unfolding vs by (simp add: comp_def)
    finally have "sum_of_stack ?vs = Some (map (\<lambda>k. sum_list
        (map (\<lambda>g. shot_vjp E (mm ! i) (?d ! g) (?j ! g) ! k) [0..<length ?d])) [0..<p i])" .
    with True i len show ?thesis
      by (simp add: py_index_def ebind_def sum)
  qed
qed


text \<open>Two tapes, the second with several measurements, with two shot groups each and then
  without partitioned shots.\<close>

theorem shot_groups_summed_witness:
  "autograd__compute_vjps_autograd demo_env [[1, 2], [3, 4]] [[10, 20], [30, 40]] [False, True] True
     = Inr [[50], [450]]
   \<and> autograd__compute_vjps_autograd demo_env [[1, 2], [3, 4]] [[10, 20], [30, 40]] [False, True] False
     = Inr [[10, 40], [190, 260]]"
proof -
  have sum: "sum_stack demo_env = sum_of_stack" by (simp add: demo_env_def)
  have it: "iter demo_env = (\<lambda>v. map (\<lambda>x. [x]) v)" by (simp add: demo_env_def)
  have sv: "shot_vjp demo_env = (\<lambda>multi d j. if multi then map (\<lambda>(x, y). x * y + 100) (zip d j)
                                          else map (\<lambda>(x, y). x * y) (zip d j))"
    by (simp add: shot_vjp_def demo_env_def fun_eq_iff)
  have groups: "\<forall>i < length [False, True].
      iter demo_env ([[10, 20], [30, 40]] ! i) \<noteq> [] \<and>
      length (iter demo_env ([[1, 2], [3, 4]] ! i)) = length (iter demo_env ([[10, 20], [30, 40]] ! i)) \<and>
      (\<forall>g < length (iter demo_env ([[10, 20], [30, 40]] ! i)).
         length (shot_vjp demo_env ([False, True] ! i) (iter demo_env ([[10, 20], [30, 40]] ! i) ! g)
                   (iter demo_env ([[1, 2], [3, 4]] ! i) ! g)) = (\<lambda>i. 1) i)"
    by (simp add: it sv All_less_Suc)
  have a: "autograd__compute_vjps_autograd demo_env [[1, 2], [3, 4]] [[10, 20], [30, 40]] [False, True] True
     = Inr [[50], [450]]"
    using shot_groups_summed [of demo_env "[[10, 20], [30, 40]]" "[False, True]" "[[1, 2], [3, 4]]"
        True "\<lambda>i. 1", OF sum _ _ groups]
    by (simp add: it sv upt_rec)
  have b: "autograd__compute_vjps_autograd demo_env [[1, 2], [3, 4]] [[10, 20], [30, 40]] [False, True] False
     = Inr [[10, 40], [190, 260]]"
    using shot_groups_summed [of demo_env "[[10, 20], [30, 40]]" "[False, True]" "[[1, 2], [3, 4]]"
        False "\<lambda>i. 1", OF sum]
    by (simp add: it sv upt_rec)
  from a b show ?thesis by simp
qed

subsection \<open>Result marshaling\<close>


lemma emap_guarded:
  "(\<And>x. x \<in> set xs \<Longrightarrow> f x = (if bad x then Inl e else Inr (g x))) \<Longrightarrow>
     emap f xs = (if \<exists>x \<in> set xs. bad x then Inl e else Inr (map g xs))"
  by (induction xs) auto

lemma to_jax_entries:
  "i < length res \<Longrightarrow>
     (jax__is_count_result (res ! i) \<longrightarrow> jax__to_jax res ! i = Raw (res ! i))
   \<and> (\<not> jax__is_count_result (res ! i) \<longrightarrow> (\<forall>rs. res ! i \<noteq> PyTuple rs) \<longrightarrow>
        jax__to_jax res ! i = JnpArray (res ! i))
   \<and> (\<forall>rs. res ! i = PyTuple rs \<longrightarrow>
        jax__to_jax res ! i =
          HostTuple (map (\<lambda>r. if jax__is_count_result r then Raw r else JnpArray r) rs))"
  by (auto simp: jax__to_jax_def jax__to_jax_entry_def jax__is_count_result_def is_dict_def
      split: result.splits)

lemma marshal_legacy_cases:
  "(has_counts tape \<longrightarrow> autograd_marshal_legacy tape r = Raw r)
   \<and> (\<not> has_counts tape \<longrightarrow> autograd_marshal_legacy tape r \<noteq> Raw r)"
  by (auto simp: autograd_marshal_legacy_def split: result.splits)

lemma autograd_legacy_marshaling:
  assumes ex: "execute_fn E (map convert_to_numpy_parameters tapes) gradient_kwargs = (res, jacs)"
      and len: "length res \<le> length tapes"
  shows "fst (autograd___execute_legacy E parameters tapes gradient_kwargs n max_diff) =
           Inr (map (\<lambda>i. autograd_marshal_legacy (tapes ! i) (res ! i)) [0..<length res], jacs)"
proof -
  have "emap (\<lambda>(i, r). ebind (py_index tapes i) (\<lambda>tape_i. Inr (autograd_marshal_legacy tape_i r)))
          (zip [0..<length res] res)
        = Inr (map (\<lambda>(i, r). autograd_marshal_legacy (tapes ! i) r) (zip [0..<length res] res))"
    by (rule emap_Inr) (use len in \<open>auto simp: set_zip py_index_def ebind_def\<close>)
  moreover have "map (\<lambda>(i, r). autograd_marshal_legacy (tapes ! i) r) (zip [0..<length res] res)
        = map (\<lambda>i. autograd_marshal_legacy (tapes ! i) (res ! i)) [0..<length res]"
    by (rule nth_equalityI) auto
  ultimately show ?thesis
    using ex by (simp add: autograd___execute_legacy_def ebind_def)
qed

lemma jax_legacy_marshaling_batch:
  assumes ex: "execute_fn E (set_parameters_on_copy_and_unwrap tapes params True) gradient_kwargs
                 = (res, jacs)"
      and many: "length tapes > 1"
  shows "fst (jax__execute_legacy_wrapped_exec E tapes gradient_kwargs params) =
     (if \<exists>(tape, r) \<in> set (zip tapes res). has_counts tape \<and> batch_size tape \<noteq> None
      then Inl (InterfaceUnsupportedError
         ''Broadcasted circuits with counts return types are only supported with the new return system. Use qml.enable_return() to turn it on.'')
      else Inr (PerTape (map (\<lambda>(tape, r). if has_counts tape then Raw r else JnpArray r)
                            (zip tapes res))))"
proof -
  have "emap (\<lambda>(tape, r). array_if_not_counts tape r) (zip tapes res) =
     (if \<exists>x \<in> set (zip tapes res). (case x of (tape, r) \<Rightarrow> has_counts tape \<and> batch_size tape \<noteq> None)
      then Inl (InterfaceUnsupportedError
         ''Broadcasted circuits with counts return types are only supported with the new return system. Use qml.enable_return() to turn it on.'')
      else Inr (map (\<lambda>(tape, r). if has_counts tape then Raw r else JnpArray r) (zip tapes res)))"
  proof (rule emap_guarded)
    fix x assume "x \<in> set (zip tapes res)"
    obtain tape r where x: "x = (tape, r)" by (cases x)
    show "(case x of (tape, r) \<Rightarrow> array_if_not_counts tape r) =
       (if (case x of (tape, r) \<Rightarrow> has_counts tape \<and> batch_size tape \<noteq> None)
        then Inl (InterfaceUnsupportedError
         ''Broadcasted circuits with counts return types are only supported with the new return system. Use qml.enable_return() to turn it on.'')
        else Inr (case x of (tape, r) \<Rightarrow> if has_counts tape then Raw r else JnpArray r))"
      unfolding x by (simp add: array_if_not_counts_def)
  qed
  then show ?thesis
    using ex many by (auto simp: jax__execute_legacy_wrapped_exec_def ebind_def)
qed

lemma jax_legacy_marshaling_single:
  assumes ex: "execute_fn E (set_parameters_on_copy_and_unwrap [tape] params True) gradient_kwargs
                 = (res, jacs)"
  shows "fst (jax__execute_legacy_wrapped_exec E [tape] gradient_kwargs params) =
     (if has_counts tape
      then (if batch_size tape \<noteq> None
            then Inl (InterfaceUnsupportedError
         ''Broadcasted circuits with counts return types are only supported with the new return system. Use qml.enable_return() to turn it on.'')
            else Inr (Whole (Raw res)))
      else Inr (Whole (JnpArray res)))"
  using ex by (simp add: jax__execute_legacy_wrapped_exec_def ebind_def py_index_def
      array_if_not_counts_def)


text \<open>C8, as the code has it. \<^verbatim>\<open>_to_jax\<close> leaves a count result (a dictionary, or a list
  of dictionaries) as it is and converts every other entry with \<^verbatim>\<open>jnp.array\<close>, a tuple
  entry by entry. The Autograd \<^verbatim>\<open>__execute_legacy\<close> leaves the result of a tape with a
  counts measurement as it is and converts the result of every other tape. The legacy JAX
  \<^verbatim>\<open>wrapped_exec\<close> leaves the result of a tape with a counts measurement as it is and
  converts the others, unless a tape with a counts measurement is broadcasted
  (\<^verbatim>\<open>batch_size\<close> not \<^verbatim>\<open>None\<close>): then it raises \<^verbatim>\<open>InterfaceUnsupportedError\<close>.\<close>

theorem counts_results_pass_through:
  "(\<forall>i < length res.
      (jax__is_count_result (res ! i) \<longrightarrow> jax__to_jax res ! i = Raw (res ! i))
    \<and> (\<not> jax__is_count_result (res ! i) \<longrightarrow> (\<forall>rs. res ! i \<noteq> PyTuple rs) \<longrightarrow>
         jax__to_jax res ! i = JnpArray (res ! i))
    \<and> (\<forall>rs. res ! i = PyTuple rs \<longrightarrow>
         jax__to_jax res ! i =
           HostTuple (map (\<lambda>r. if jax__is_count_result r then Raw r else JnpArray r) rs)))
   \<and> length (jax__to_jax res) = length res
   \<and> jax__is_count_result (Dict d)
   \<and> (let res1 = fst (execute_fn E (map convert_to_numpy_parameters tapes) gradient_kwargs);
           jacs1 = snd (execute_fn E (map convert_to_numpy_parameters tapes) gradient_kwargs)
       in length res1 \<le> length tapes \<longrightarrow>
          fst (autograd___execute_legacy E parameters tapes gradient_kwargs n max_diff) =
            Inr (map (\<lambda>i. autograd_marshal_legacy (tapes ! i) (res1 ! i)) [0..<length res1], jacs1)
          \<and> (\<forall>i < length res1.
                (has_counts (tapes ! i) \<longrightarrow>
                   autograd_marshal_legacy (tapes ! i) (res1 ! i) = Raw (res1 ! i))
              \<and> (\<not> has_counts (tapes ! i) \<longrightarrow>
                   autograd_marshal_legacy (tapes ! i) (res1 ! i) \<noteq> Raw (res1 ! i))))
   \<and> (let res2 = fst (execute_fn E (set_parameters_on_copy_and_unwrap tapes params True)
                         gradient_kwargs)
       in length tapes > 1 \<longrightarrow>
          fst (jax__execute_legacy_wrapped_exec E tapes gradient_kwargs params) =
            (if \<exists>(tape, r) \<in> set (zip tapes res2). has_counts tape \<and> batch_size tape \<noteq> None
             then Inl (InterfaceUnsupportedError
               ''Broadcasted circuits with counts return types are only supported with the new return system. Use qml.enable_return() to turn it on.'')
             else Inr (PerTape (map (\<lambda>(tape, r). if has_counts tape then Raw r else JnpArray r)
                                   (zip tapes res2)))))
   \<and> (let res3 = fst (execute_fn E (set_parameters_on_copy_and_unwrap [tape] params True)
                         gradient_kwargs)
       in fst (jax__execute_legacy_wrapped_exec E [tape] gradient_kwargs params) =
            (if has_counts tape
             then (if batch_size tape \<noteq> None
                   then Inl (InterfaceUnsupportedError
               ''Broadcasted circuits with counts return types are only supported with the new return system. Use qml.enable_return() to turn it on.'')
                   else Inr (Whole (Raw res3)))
             else Inr (Whole (JnpArray res3))))"
proof -
  have a: "\<forall>i < length res.
      (jax__is_count_result (res ! i) \<longrightarrow> jax__to_jax res ! i = Raw (res ! i))
    \<and> (\<not> jax__is_count_result (res ! i) \<longrightarrow> (\<forall>rs. res ! i \<noteq> PyTuple rs) \<longrightarrow>
         jax__to_jax res ! i = JnpArray (res ! i))
    \<and> (\<forall>rs. res ! i = PyTuple rs \<longrightarrow>
         jax__to_jax res ! i =
           HostTuple (map (\<lambda>r. if jax__is_count_result r then Raw r else JnpArray r) rs))"
    using to_jax_entries [of _ res] by blast
  have b: "length (jax__to_jax res) = length res" "jax__is_count_result (Dict d)"
    by (simp_all add: jax__to_jax_def jax__is_count_result_def is_dict_def)
  obtain res1 jacs1 where r1:
    "execute_fn E (map convert_to_numpy_parameters tapes) gradient_kwargs = (res1, jacs1)"
    by (cases "execute_fn E (map convert_to_numpy_parameters tapes) gradient_kwargs")
  obtain res2 jacs2 where r2:
    "execute_fn E (set_parameters_on_copy_and_unwrap tapes params True) gradient_kwargs = (res2, jacs2)"
    by (cases "execute_fn E (set_parameters_on_copy_and_unwrap tapes params True) gradient_kwargs")
  obtain res3 jacs3 where r3:
    "execute_fn E (set_parameters_on_copy_and_unwrap [tape] params True) gradient_kwargs = (res3, jacs3)"
    by (cases "execute_fn E (set_parameters_on_copy_and_unwrap [tape] params True) gradient_kwargs")
  have c: "length res1 \<le> length tapes \<longrightarrow>
          fst (autograd___execute_legacy E parameters tapes gradient_kwargs n max_diff) =
            Inr (map (\<lambda>i. autograd_marshal_legacy (tapes ! i) (res1 ! i)) [0..<length res1], jacs1)
          \<and> (\<forall>i < length res1.
                (has_counts (tapes ! i) \<longrightarrow>
                   autograd_marshal_legacy (tapes ! i) (res1 ! i) = Raw (res1 ! i))
              \<and> (\<not> has_counts (tapes ! i) \<longrightarrow>
                   autograd_marshal_legacy (tapes ! i) (res1 ! i) \<noteq> Raw (res1 ! i)))"
    using autograd_legacy_marshaling [OF r1] marshal_legacy_cases by blast
  note d = jax_legacy_marshaling_batch [OF r2]
  note e = jax_legacy_marshaling_single [OF r3]
  show ?thesis
    unfolding Let_def r1 r2 r3 fst_conv snd_conv
    using a b c d e by blast
qed


text \<open>A counts tape and an expectation-value tape in one batch, through the three
  marshaling stages, and a counts tape alone. Each tape has its one parameter annotated as
  trainable, and the parameters are those of the tapes.\<close>

theorem counts_results_pass_through_witness:
  "jax__to_jax [Dict [(''0'', 3)], NdArray False [1::int], PyTuple [Dict [], PyOther 2]]
     = [Raw (Dict [(''0'', 3)]), JnpArray (NdArray False [1]),
        HostTuple [Raw (Dict []), JnpArray (PyOther 2)]]
   \<and> fst (autograd___execute_legacy demo_env [[Tracer 5], [Tracer 5]]
            [demo_trainable_counts_tape, demo_trainable_tape] [] 1 1)
     = Inr ([Raw (Dict [(''0'', 3), (''1'', 7)]), NpTensor (NdArray False [1, 7])], [])
   \<and> fst (jax__execute_legacy_wrapped_exec demo_env
            [demo_trainable_counts_tape, demo_trainable_tape] [] [[Tracer 5], [Tracer 5]])
     = Inr (PerTape [Raw (Dict [(''0'', 3), (''1'', 7)]), JnpArray (NdArray False [1, 7])])
   \<and> fst (jax__execute_legacy_wrapped_exec demo_env [demo_trainable_counts_tape] []
            [[Tracer 5]])
     = Inr (Whole (Raw [Dict [(''0'', 3), (''1'', 7)]]))"
proof -
  note t = counts_results_pass_through [of
      "[Dict [(''0'', 3)], NdArray False [1::int], PyTuple [Dict [], PyOther 2]]" "[]"
      demo_env "[demo_trainable_counts_tape, demo_trainable_tape]" "[]"
      "[[Tracer 5], [Tracer 5]]" 1 1 "[[Tracer 5], [Tracer 5]]" demo_trainable_counts_tape]
  have a: "jax__to_jax [Dict [(''0'', 3)], NdArray False [1::int], PyTuple [Dict [], PyOther 2]]
     = [Raw (Dict [(''0'', 3)]), JnpArray (NdArray False [1]),
        HostTuple [Raw (Dict []), JnpArray (PyOther 2)]]"
    by (simp add: jax__to_jax_def jax__to_jax_entry_def jax__is_count_result_def is_dict_def)
  note tD = t [THEN conjunct2, THEN conjunct2, THEN conjunct2, THEN conjunct1]
  note tE = t [THEN conjunct2, THEN conjunct2, THEN conjunct2, THEN conjunct2, THEN conjunct1]
  note tF = t [THEN conjunct2, THEN conjunct2, THEN conjunct2, THEN conjunct2, THEN conjunct2]
  have sp: "set_parameters_on_copy_and_unwrap [demo_trainable_counts_tape, demo_trainable_tape]
        [[Tracer 5], [Tracer 5]] True
      = [demo_trainable_counts_tape\<lparr>data := [Numeric 5]\<rparr>,
         demo_trainable_tape\<lparr>data := [Numeric 5]\<rparr>]"
     "set_parameters_on_copy_and_unwrap [demo_trainable_counts_tape] [[Tracer 5], [Tracer 5]] True
      = [demo_trainable_counts_tape\<lparr>data := [Numeric 5]\<rparr>]"
    by (simp_all add: set_parameters_on_copy_and_unwrap_def demo_substituted)
  have b: "fst (autograd___execute_legacy demo_env [[Tracer 5], [Tracer 5]]
            [demo_trainable_counts_tape, demo_trainable_tape] [] 1 1)
     = Inr ([Raw (Dict [(''0'', 3), (''1'', 7)]), NpTensor (NdArray False [1, 7])], [])"
    using tD by (simp add: Let_def demo_unwrapped demo_backend demo_has_counts
        demo_trainable_counts autograd_marshal_legacy_def upt_rec)
  have c: "fst (jax__execute_legacy_wrapped_exec demo_env
            [demo_trainable_counts_tape, demo_trainable_tape] [] [[Tracer 5], [Tracer 5]])
     = Inr (PerTape [Raw (Dict [(''0'', 3), (''1'', 7)]), JnpArray (NdArray False [1, 7])])"
    using tE by (simp add: Let_def sp demo_backend demo_has_counts demo_trainable_counts)
  have d: "fst (jax__execute_legacy_wrapped_exec demo_env [demo_trainable_counts_tape] []
            [[Tracer 5], [Tracer 5]])
     = Inr (Whole (Raw [Dict [(''0'', 3), (''1'', 7)]]))"
    using tF by (simp add: Let_def sp demo_backend demo_has_counts demo_trainable_counts)
  have d': "fst (jax__execute_legacy_wrapped_exec demo_env [demo_trainable_counts_tape] []
              [[Tracer 5]])
       = fst (jax__execute_legacy_wrapped_exec demo_env [demo_trainable_counts_tape] []
              [[Tracer 5], [Tracer 5]])"
    by (simp add: jax__execute_legacy_wrapped_exec_def set_parameters_on_copy_and_unwrap_def)
  from a b c d d' show ?thesis by simp
qed

text \<open>C8 as stated fails on the legacy JAX path. The entry point \<^verbatim>\<open>execute_legacy\<close> is
  called at depth 1 with a gradient transform on a broadcasted counts tape and an
  expectation-value tape; it annotates the one parameter of each tape as trainable and
  passes the parameters of the tapes on. The backend returns a dictionary for the counts
  tape, and the marshaling stage raises instead of passing it through.\<close>

theorem broadcasted_counts_tape_rejected:
  "map set_trainable [demo_counts_tape\<lparr>batch_size := Some 2\<rparr>, demo_tape]
     = [demo_broadcasted_counts_tape, demo_trainable_tape]
   \<and> map get_parameters [demo_broadcasted_counts_tape, demo_trainable_tape]
     = [[Tracer 5], [Tracer 5]]
   \<and> fst (execute_fn demo_env
          (set_parameters_on_copy_and_unwrap [demo_broadcasted_counts_tape, demo_trainable_tape]
             [[Tracer 5], [Tracer 5]] True) [])
     = [Dict [(''0'', 3), (''1'', 7)], NdArray False [1, 7]]
   \<and> fst (jax__execute_legacy_wrapped_exec demo_env
            [demo_broadcasted_counts_tape, demo_trainable_tape] [] [[Tracer 5], [Tracer 5]])
     = Inl (InterfaceUnsupportedError
         ''Broadcasted circuits with counts return types are only supported with the new return system. Use qml.enable_return() to turn it on.'')
   \<and> fst (jax_execute_legacy demo_env [demo_counts_tape\<lparr>batch_size := Some 2\<rparr>, demo_tape]
            (Some demo_transform) [] 1 1)
     = Inl (InterfaceUnsupportedError
         ''Broadcasted circuits with counts return types are only supported with the new return system. Use qml.enable_return() to turn it on.'')"
proof -
  have w: "fst (jax__execute_legacy_wrapped_exec demo_env
            [demo_broadcasted_counts_tape, demo_trainable_tape] [] [[Tracer 5], [Tracer 5]])
     = Inl (InterfaceUnsupportedError
         ''Broadcasted circuits with counts return types are only supported with the new return system. Use qml.enable_return() to turn it on.'')"
    by (simp add: jax__execute_legacy_wrapped_exec_def demo_backend ebind_def
        array_if_not_counts_def set_parameters_on_copy_and_unwrap_def demo_substituted
        demo_trainable_counts demo_has_counts)
  have b: "fst (execute_fn demo_env
          (set_parameters_on_copy_and_unwrap [demo_broadcasted_counts_tape, demo_trainable_tape]
             [[Tracer 5], [Tracer 5]] True) [])
     = [Dict [(''0'', 3), (''1'', 7)], NdArray False [1, 7]]"
    by (simp add: demo_backend set_parameters_on_copy_and_unwrap_def demo_substituted
        demo_trainable_counts demo_has_counts)
  have e: "fst (jax_execute_legacy demo_env [demo_counts_tape\<lparr>batch_size := Some 2\<rparr>, demo_tape]
            (Some demo_transform) [] 1 1)
     = Inl (InterfaceUnsupportedError
         ''Broadcasted circuits with counts return types are only supported with the new return system. Use qml.enable_return() to turn it on.'')"
    using w
    by (simp add: jax_execute_legacy_def demo_batch_valid demo_annotated demo_get_parameters
        jax__execute_legacy_def case_prod_beta ebind_def Let_def)
  from w b e demo_get_parameters demo_annotated show ?thesis by simp
qed

subsection \<open>Nesting depth and recursion\<close>


lemma execute_entries_simps [simp]:
  "execute_entries [] = []"
  "execute_entries (Execute n m # evs) = (n, m) # execute_entries evs"
  "execute_entries (ExecuteLegacy n m # evs) = execute_entries evs"
  "execute_entries (ExecuteFn ts kw # evs) = execute_entries evs"
  "execute_entries (GradientFn ts kw # evs) = execute_entries evs"
  "execute_entries (evs @ evs') = execute_entries evs @ execute_entries evs'"
  by (simp_all add: execute_entries_def)

lemma backend_calls_simps [simp]:
  "backend_calls [] = []"
  "backend_calls (Execute n m # evs) = backend_calls evs"
  "backend_calls (ExecuteLegacy n m # evs) = backend_calls evs"
  "backend_calls (ExecuteFn ts kw # evs) = ExecuteFn ts kw # backend_calls evs"
  "backend_calls (GradientFn ts kw # evs) = backend_calls evs"
  "backend_calls (evs @ evs') = backend_calls evs @ backend_calls evs'"
  by (simp_all add: backend_calls_def)

lemma jax_wrapper_events:
  "jax__execute_bwd_execute_wrapper E tapes kw hp params = (res, evs) \<Longrightarrow>
     evs = [ExecuteFn (set_parameters_on_copy_and_unwrap tapes params True) kw]"
  by (auto simp: jax__execute_bwd_execute_wrapper_def Let_def split: prod.splits)






lemma use_cache_not_computing [simp]: "use_cache gradient_fn False = None"
  by (simp add: use_cache_def split: option.splits)

lemma autograd_get_jac_entries:
  "execute_entries (snd (snd (autograd_vjp_get_jac_with_caching E tapes device gf kw cache))) = []"
  by (simp add: autograd_vjp_get_jac_with_caching_def Let_def case_prod_beta
      split: option.splits sum.splits device.splits)

lemma autograd_get_jac_entriesD:
  "autograd_vjp_get_jac_with_caching E tapes device gf kw cache = (r, c, evs) \<Longrightarrow>
     execute_entries evs = []"
  using autograd_get_jac_entries [of E tapes device gf kw cache] by simp




















subsection \<open>Terminal gradient rules\<close>


lemma py_index_error: "py_index xs i = Inl e \<Longrightarrow> e = IndexError"
  by (simp add: py_index_def split: if_splits)

lemma jax_compute_jvps_error:
  "jax__compute_jvps E jacs tangents mm = Inl e \<Longrightarrow> e = IndexError"
  unfolding jax__compute_jvps_def
  by (drule emap_Inl) (auto simp: ebind_def Let_def split: sum.splits dest: py_index_error)

lemma autograd_compute_vjps_error:
  "autograd__compute_vjps_autograd E jacs dy mm hp = Inl e \<Longrightarrow> e = IndexError \<or> e = ValueError"
  unfolding autograd__compute_vjps_autograd_def
  by (drule emap_Inl)
     (auto simp: ebind_def Let_def split: sum.splits option.splits dest: py_index_error)

lemma device_shots_error: "device_shots device tapes = Inl e \<Longrightarrow> e = IndexError"
  by (auto simp: device_shots_def ebind_def split: device.splits sum.splits dest: py_index_error)

lemma autograd_get_jac_error:
  "autograd_vjp_get_jac_with_caching E tapes device gf kw cache = (Inl e, c, evs) \<Longrightarrow> e = IndexError"
  by (auto simp: autograd_vjp_get_jac_with_caching_def ebind_def Let_def case_prod_beta
      split: option.splits sum.splits device.splits dest: py_index_error)

lemma jax_jvp_terminal:
  assumes "gradient_fn = Some gf" "\<not> is_gradient_transform gf"
  shows "jax__execute_bwd_execute_wrapper_jvp E tapes device gradient_fn kw n max_diff hp js
           primals tangents =
         (let new_tapes = set_parameters_on_copy_and_unwrap tapes primals True;
              res = fst (jax__execute_bwd_execute_wrapper E tapes kw hp primals);
              jacs = on_batch gf new_tapes kw;
              multi_measurements = map (\<lambda>tape. length (measurements tape) > 1) new_tapes
          in (ebind (jax__compute_jvps E jacs tangents multi_measurements)
                (\<lambda>jvps. Inr (res, jvps)),
              [ExecuteFn new_tapes kw, GradientFn new_tapes kw]))"
  using assms
  by (auto simp: jax__execute_bwd_execute_wrapper_jvp_def Let_def split: prod.splits
      dest!: jax_wrapper_events)

lemma autograd_grad_fn_terminal:
  assumes "gradient_fn = Some gf" "\<not> is_gradient_transform gf"
  shows "execute_entries (snd (snd (autograd_vjp_grad_fn E ans tapes device gradient_fn kw
            n max_diff cache dy))) = []
       \<and> (\<forall>msg. fst (autograd_vjp_grad_fn E ans tapes device gradient_fn kw
            n max_diff cache dy) \<noteq> Inl (InterfaceUnsupportedError msg))"
proof (cases "device_shots device tapes")
  case (Inl e)
  then show ?thesis
    by (auto simp: autograd_vjp_grad_fn_def Let_def dest: device_shots_error)
next
  case (Inr p)
  obtain hp vs where p: "p = (hp, vs)" by (cases p)
  let ?J = "case use_cache gradient_fn (n = max_diff) of
              Some gf \<Rightarrow> autograd_vjp_get_jac_with_caching E tapes device gf kw cache
            | None \<Rightarrow> (Inr (snd ans), cache, [])"
  obtain r c evs0 where J: "?J = (r, c, evs0)" by (cases ?J)
  have e0: "execute_entries evs0 = []"
    using J by (auto split: option.splits dest: autograd_get_jac_entriesD)
  show ?thesis
  proof (cases r)
    case (Inl e)
    with J have "e = IndexError"
      by (auto split: option.splits dest: autograd_get_jac_error)
    with Inl Inr p J e0 assms show ?thesis by (simp add: autograd_vjp_grad_fn_def Let_def)
  next
    case r: (Inr jacs)
    have ne: "ebind (autograd__compute_vjps_autograd E js (fst dy) mm hp)
                 (\<lambda>vjps. Inr (return_vjps E n vjps))
                \<noteq> Inl (InterfaceUnsupportedError msg)" for js mm msg
      by (auto simp: ebind_def split: sum.splits dest: autograd_compute_vjps_error)
    from r Inr p J e0 assms ne show ?thesis
      by (simp add: autograd_vjp_grad_fn_def Let_def case_prod_beta)
  qed
qed

lemma autograd_grad_fn_terminal_exact:
  assumes "gradient_fn = Some gf" "\<not> is_gradient_transform gf"
      and "device_shots device tapes = Inr (hp, vs)"
      and "use_cache gradient_fn (n = max_diff) = None"
  shows "autograd_vjp_grad_fn E ans tapes device gradient_fn kw n max_diff cache dy =
     (let multi_measurements = map (\<lambda>tape. length (measurements tape) > 1) tapes;
          unwrapped_tapes = map convert_to_numpy_parameters tapes
      in if snd ans \<noteq> []
         then (ebind (autograd__compute_vjps_autograd E (snd ans) (fst dy) multi_measurements hp)
                 (\<lambda>vjps. Inr (return_vjps E n vjps)),
               cache, [])
         else (ebind (autograd__compute_vjps_autograd E (on_batch gf unwrapped_tapes kw) (fst dy)
                        multi_measurements hp)
                 (\<lambda>vjps. Inr (return_vjps E n vjps)),
               cache, [GradientFn unwrapped_tapes kw]))"
  using assms by (simp add: autograd_vjp_grad_fn_def Let_def)

lemma execute_entries_backend:
  "execute_entries (map (\<lambda>t. ExecuteFn (f t) kw) ts) = []"
  by (induction ts) simp_all

lemma legacy_get_jac_entries:
  "execute_entries (snd (snd (autograd__vjp_legacy_get_jac_with_caching E tapes gf kw cache))) = []"
  by (simp add: autograd__vjp_legacy_get_jac_with_caching_def Let_def case_prod_beta comp_def
      execute_entries_backend split: option.splits)

lemma legacy_grad_fn_terminal:
  assumes "gradient_fn = Some gf" "\<not> is_gradient_transform gf"
  shows "execute_entries (snd (snd (autograd__vjp_legacy_grad_fn E ans tapes device gradient_fn kw
            n max_diff cache dy))) = []
       \<and> (\<forall>e. fst (autograd__vjp_legacy_grad_fn E ans tapes device gradient_fn kw
            n max_diff cache dy) \<noteq> Inl e)"
proof -
  let ?J = "case use_cache gradient_fn (n = max_diff) of
              Some gf \<Rightarrow> autograd__vjp_legacy_get_jac_with_caching E tapes gf kw cache
            | None \<Rightarrow> (snd ans, cache, [])"
  obtain jacs c evs0 where J: "?J = (jacs, c, evs0)" by (cases ?J)
  have "execute_entries (snd (snd ?J)) = []"
    by (simp add: legacy_get_jac_entries split: option.splits)
  with J have e0: "execute_entries evs0 = []" by simp
  from J e0 assms show ?thesis
    by (simp add: autograd__vjp_legacy_grad_fn_def Let_def)
qed

lemma legacy_grad_fn_terminal_exact:
  assumes "gradient_fn = Some gf" "\<not> is_gradient_transform gf"
      and "use_cache gradient_fn (n = max_diff) = None"
  shows "autograd__vjp_legacy_grad_fn E ans tapes device gradient_fn kw n max_diff cache dy =
     (let dy' = map (math_T E) (fst dy);
          unwrapped_tapes = map convert_to_numpy_parameters tapes
      in if snd ans \<noteq> []
         then (Inr (return_vjps E n (map (\<lambda>(d, jac). compute_vjp E d jac) (zip dy' (snd ans)))),
               cache, [])
         else (Inr (return_vjps E n (map (\<lambda>(d, jac). compute_vjp E d jac)
                                      (zip dy' (on_batch gf unwrapped_tapes kw)))),
               cache, [GradientFn unwrapped_tapes kw]))"
  using assms by (simp add: autograd__vjp_legacy_grad_fn_def Let_def)

lemma jax_legacy_bwd_terminal:
  assumes "gradient_fn = Some gf" "\<not> is_gradient_transform gf"
  shows "jax__execute_legacy_wrapped_exec_bwd E tapes gradient_fn kw params g =
     (let unwrapped_tapes = map convert_to_numpy_parameters tapes
      in (Inr [map (\<lambda>(d, jac). compute_vjp E d jac) (zip g (on_batch gf unwrapped_tapes kw))],
          [GradientFn unwrapped_tapes kw]))"
  using assms by (simp add: jax__execute_legacy_wrapped_exec_bwd_def Let_def)

lemma jax_execute_error:
  assumes "gradient_fn = Some gf"
      and "fst (jax_execute E tapes device gradient_fn kw n max_diff) = Inl e"
  shows "e = IndexError"
  using assms
  by (auto simp: jax_execute_def jax__execute_bwd_def Let_def case_prod_beta
      split: sum.splits dest: device_shots_error)

lemma autograd_execute_error:
  assumes "fst (autograd_execute E tapes device gradient_fn kw n max_diff) = Inl e"
  shows "e = IndexError"
proof (cases "active_return E")
  case True
  with assms show ?thesis
    by (simp add: autograd_execute_def autograd__execute_def Let_def case_prod_beta)
next
  case False
  let ?ts = "map set_trainable tapes"
  obtain res jacs where r:
    "execute_fn E (map convert_to_numpy_parameters ?ts) kw = (res, jacs)"
    by (cases "execute_fn E (map convert_to_numpy_parameters ?ts) kw")
  from assms False r
  have "\<exists>e'. emap (\<lambda>(i, r). ebind (py_index ?ts i) (\<lambda>tape_i. Inr (autograd_marshal_legacy tape_i r)))
          (zip [0..<length res] res) = Inl e' \<and> e' = e"
    by (auto simp: autograd_execute_def autograd__execute_legacy_def autograd___execute_legacy_def
        Let_def case_prod_beta ebind_def split: sum.splits)
  then show ?thesis
    by (auto dest!: emap_Inl simp: ebind_def split: sum.splits dest: py_index_error)
qed

lemma entry_events_simps [simp]:
  "entry_events [] = []"
  "entry_events (Execute n m # evs) = Execute n m # entry_events evs"
  "entry_events (ExecuteLegacy n m # evs) = ExecuteLegacy n m # entry_events evs"
  "entry_events (ExecuteFn ts kw # evs) = entry_events evs"
  "entry_events (GradientFn ts kw # evs) = entry_events evs"
  "entry_events (evs @ evs') = entry_events evs @ entry_events evs'"
  by (simp_all add: entry_events_def)

lemma entry_events_backend:
  "entry_events (map (\<lambda>t. ExecuteFn (f t) kw) ts) = []"
  by (induction ts) simp_all

lemma autograd_get_jac_no_entry:
  "entry_events (snd (snd (autograd_vjp_get_jac_with_caching E tapes device gf kw cache))) = []"
  by (simp add: autograd_vjp_get_jac_with_caching_def Let_def case_prod_beta
      split: option.splits sum.splits device.splits)

lemma legacy_get_jac_no_entry:
  "entry_events (snd (snd (autograd__vjp_legacy_get_jac_with_caching E tapes gf kw cache))) = []"
  by (simp add: autograd__vjp_legacy_get_jac_with_caching_def Let_def case_prod_beta comp_def
      entry_events_backend split: option.splits)

lemma autograd_grad_fn_terminal_no_entry:
  assumes "gradient_fn = Some gf" "\<not> is_gradient_transform gf"
  shows "entry_events (snd (snd (autograd_vjp_grad_fn E ans tapes device gradient_fn kw
            n max_diff cache dy))) = []"
proof (cases "device_shots device tapes")
  case (Inl e)
  then show ?thesis by (simp add: autograd_vjp_grad_fn_def Let_def)
next
  case (Inr p)
  obtain hp vs where p: "p = (hp, vs)" by (cases p)
  let ?J = "case use_cache gradient_fn (n = max_diff) of
              Some gf \<Rightarrow> autograd_vjp_get_jac_with_caching E tapes device gf kw cache
            | None \<Rightarrow> (Inr (snd ans), cache, [])"
  obtain r c evs0 where J: "?J = (r, c, evs0)" by (cases ?J)
  have "entry_events (snd (snd ?J)) = []"
    by (simp add: autograd_get_jac_no_entry split: option.splits)
  with J have e0: "entry_events evs0 = []" by simp
  show ?thesis
  proof (cases r)
    case (Inl e)
    with Inr p J e0 assms show ?thesis by (simp add: autograd_vjp_grad_fn_def Let_def)
  next
    case r: (Inr jacs)
    with Inr p J e0 assms show ?thesis
      by (simp add: autograd_vjp_grad_fn_def Let_def case_prod_beta)
  qed
qed

lemma legacy_grad_fn_terminal_no_entry:
  assumes "gradient_fn = Some gf" "\<not> is_gradient_transform gf"
  shows "entry_events (snd (snd (autograd__vjp_legacy_grad_fn E ans tapes device gradient_fn kw
            n max_diff cache dy))) = []"
proof -
  let ?J = "case use_cache gradient_fn (n = max_diff) of
              Some gf \<Rightarrow> autograd__vjp_legacy_get_jac_with_caching E tapes gf kw cache
            | None \<Rightarrow> (snd ans, cache, [])"
  obtain jacs c evs0 where J: "?J = (jacs, c, evs0)" by (cases ?J)
  have "entry_events (snd (snd ?J)) = []"
    by (simp add: legacy_get_jac_no_entry split: option.splits)
  with J have e0: "entry_events evs0 = []" by simp
  from J e0 assms show ?thesis
    by (simp add: autograd__vjp_legacy_grad_fn_def Let_def)
qed

text \<open>C4, as the code has it. With a gradient rule that is not a transform, for every
  nesting depth and every \<^verbatim>\<open>max_diff\<close>:
  \<^item> the JAX tangent rule \<^verbatim>\<open>execute_wrapper_jvp\<close> runs the backend on the substituted tapes,
    calls the rule once on the same concrete tapes and contracts its Jacobians with the
    tangents, an outcome in which neither \<^verbatim>\<open>_n\<close> nor \<^verbatim>\<open>max_diff\<close> occurs, and never raises
    \<^verbatim>\<open>InterfaceUnsupportedError\<close>;
  \<^item> the Autograd backward rule \<^verbatim>\<open>vjp.grad_fn\<close> enters no execution entry point and never
    raises \<^verbatim>\<open>InterfaceUnsupportedError\<close>; when the device can be read and the cache test
    fails (the rule is not named \<^verbatim>\<open>param_shift\<close>, or \<^verbatim>\<open>_n\<close> is not \<^verbatim>\<open>max_diff\<close>) it
    contracts the forward-pass Jacobians if there are any and otherwise calls the rule once
    on the unwrapped tapes and contracts its Jacobians, \<^verbatim>\<open>max_diff\<close> playing no part;
  \<^item> the legacy Autograd backward rule \<^verbatim>\<open>_vjp_legacy.grad_fn\<close> enters no execution entry
    point and raises nothing at all, and does the same when the cache test fails;
  \<^item> the legacy JAX backward rule \<^verbatim>\<open>wrapped_exec_bwd\<close> of \<^verbatim>\<open>_execute_legacy\<close> calls the rule
    once on the unwrapped tapes, contracts and returns;
  \<^item> the entry points \<^verbatim>\<open>execute\<close> of the two modules never raise
    \<^verbatim>\<open>InterfaceUnsupportedError\<close>;
  \<^item> the legacy JAX entry point \<^verbatim>\<open>execute_legacy\<close> raises \<^verbatim>\<open>InterfaceUnsupportedError\<close>
    whenever \<^verbatim>\<open>max_diff > 1\<close>: the one refusal of a derivative order among these functions,
    made before any rule is looked at.\<close>

theorem terminal_rule_raises_no_order_error:
  assumes "gradient_fn = Some gf" and "\<not> is_gradient_transform gf"
  shows "jax__execute_bwd_execute_wrapper_jvp E tapes device gradient_fn kw n max_diff hp js
           primals tangents =
         (let new_tapes = set_parameters_on_copy_and_unwrap tapes primals True;
              res = fst (jax__execute_bwd_execute_wrapper E tapes kw hp primals);
              jacs = on_batch gf new_tapes kw;
              multi_measurements = map (\<lambda>tape. length (measurements tape) > 1) new_tapes
          in (ebind (jax__compute_jvps E jacs tangents multi_measurements)
                (\<lambda>jvps. Inr (res, jvps)),
              [ExecuteFn new_tapes kw, GradientFn new_tapes kw]))
       \<and> (\<forall>msg. fst (jax__execute_bwd_execute_wrapper_jvp E tapes device gradient_fn kw n
                       max_diff hp js primals tangents) \<noteq> Inl (InterfaceUnsupportedError msg))
       \<and> execute_entries (snd (snd (autograd_vjp_grad_fn E ans tapes device gradient_fn kw
            n max_diff cache dy))) = []
       \<and> (\<forall>msg. fst (autograd_vjp_grad_fn E ans tapes device gradient_fn kw
            n max_diff cache dy) \<noteq> Inl (InterfaceUnsupportedError msg))
       \<and> (device_shots device tapes = Inr (hp', vs)
            \<and> use_cache gradient_fn (n = max_diff) = None \<longrightarrow>
          autograd_vjp_grad_fn E ans tapes device gradient_fn kw n max_diff cache dy =
            (let multi_measurements = map (\<lambda>tape. length (measurements tape) > 1) tapes;
                 unwrapped_tapes = map convert_to_numpy_parameters tapes
             in if snd ans \<noteq> []
                then (ebind (autograd__compute_vjps_autograd E (snd ans) (fst dy)
                               multi_measurements hp')
                        (\<lambda>vjps. Inr (return_vjps E n vjps)),
                      cache, [])
                else (ebind (autograd__compute_vjps_autograd E (on_batch gf unwrapped_tapes kw)
                               (fst dy) multi_measurements hp')
                        (\<lambda>vjps. Inr (return_vjps E n vjps)),
                      cache, [GradientFn unwrapped_tapes kw])))
       \<and> execute_entries (snd (snd (autograd__vjp_legacy_grad_fn E ans tapes device gradient_fn kw
            n max_diff cache dy))) = []
       \<and> (\<forall>e. fst (autograd__vjp_legacy_grad_fn E ans tapes device gradient_fn kw
            n max_diff cache dy) \<noteq> Inl e)
       \<and> (use_cache gradient_fn (n = max_diff) = None \<longrightarrow>
          autograd__vjp_legacy_grad_fn E ans tapes device gradient_fn kw n max_diff cache dy =
            (let dy' = map (math_T E) (fst dy);
                 unwrapped_tapes = map convert_to_numpy_parameters tapes
             in if snd ans \<noteq> []
                then (Inr (return_vjps E n (map (\<lambda>(d, jac). compute_vjp E d jac)
                                             (zip dy' (snd ans)))),
                      cache, [])
                else (Inr (return_vjps E n (map (\<lambda>(d, jac). compute_vjp E d jac)
                                             (zip dy' (on_batch gf unwrapped_tapes kw)))),
                      cache, [GradientFn unwrapped_tapes kw])))
       \<and> jax__execute_legacy_wrapped_exec_bwd E tapes gradient_fn kw params g =
            (let unwrapped_tapes = map convert_to_numpy_parameters tapes
             in (Inr [map (\<lambda>(d, jac). compute_vjp E d jac)
                        (zip g (on_batch gf unwrapped_tapes kw))],
                 [GradientFn unwrapped_tapes kw]))
       \<and> (\<forall>msg. fst (jax_execute E tapes device gradient_fn kw n max_diff)
                  \<noteq> Inl (InterfaceUnsupportedError msg))
       \<and> (\<forall>msg. fst (autograd_execute E tapes device gradient_fn kw n max_diff)
                  \<noteq> Inl (InterfaceUnsupportedError msg))
       \<and> (max_diff > 1 \<longrightarrow>
          fst (jax_execute_legacy E tapes gradient_fn kw n max_diff) =
            Inl (InterfaceUnsupportedError
                   ''The JAX interface only supports first order derivatives.''))
       \<and> entry_events (snd (snd (autograd_vjp_grad_fn E ans tapes device gradient_fn kw
            n max_diff cache dy))) = []
       \<and> entry_events (snd (snd (autograd__vjp_legacy_grad_fn E ans tapes device gradient_fn kw
            n max_diff cache dy))) = []"
proof -
  note j = jax_jvp_terminal [OF assms, of E tapes device kw n max_diff hp js primals tangents]
  have j2: "\<forall>msg. fst (jax__execute_bwd_execute_wrapper_jvp E tapes device gradient_fn kw n
                       max_diff hp js primals tangents) \<noteq> Inl (InterfaceUnsupportedError msg)"
    unfolding j
    by (auto simp: Let_def ebind_def split: sum.splits dest: jax_compute_jvps_error)
  note a = autograd_grad_fn_terminal [OF assms, of E ans tapes device kw n max_diff cache dy]
  have a3: "device_shots device tapes = Inr (hp', vs)
            \<and> use_cache gradient_fn (n = max_diff) = None \<longrightarrow>
          autograd_vjp_grad_fn E ans tapes device gradient_fn kw n max_diff cache dy =
            (let multi_measurements = map (\<lambda>tape. length (measurements tape) > 1) tapes;
                 unwrapped_tapes = map convert_to_numpy_parameters tapes
             in if snd ans \<noteq> []
                then (ebind (autograd__compute_vjps_autograd E (snd ans) (fst dy)
                               multi_measurements hp')
                        (\<lambda>vjps. Inr (return_vjps E n vjps)),
                      cache, [])
                else (ebind (autograd__compute_vjps_autograd E (on_batch gf unwrapped_tapes kw)
                               (fst dy) multi_measurements hp')
                        (\<lambda>vjps. Inr (return_vjps E n vjps)),
                      cache, [GradientFn unwrapped_tapes kw]))"
    using autograd_grad_fn_terminal_exact [OF assms, of device tapes hp' vs n max_diff E ans kw
        cache dy]
    by blast
  note l = legacy_grad_fn_terminal [OF assms, of E ans tapes device kw n max_diff cache dy]
  have l3: "use_cache gradient_fn (n = max_diff) = None \<longrightarrow>
          autograd__vjp_legacy_grad_fn E ans tapes device gradient_fn kw n max_diff cache dy =
            (let dy' = map (math_T E) (fst dy);
                 unwrapped_tapes = map convert_to_numpy_parameters tapes
             in if snd ans \<noteq> []
                then (Inr (return_vjps E n (map (\<lambda>(d, jac). compute_vjp E d jac)
                                             (zip dy' (snd ans)))),
                      cache, [])
                else (Inr (return_vjps E n (map (\<lambda>(d, jac). compute_vjp E d jac)
                                             (zip dy' (on_batch gf unwrapped_tapes kw)))),
                      cache, [GradientFn unwrapped_tapes kw]))"
    using legacy_grad_fn_terminal_exact [OF assms, of n max_diff E ans tapes device kw cache dy]
    by blast
  note b = jax_legacy_bwd_terminal [OF assms, of E tapes kw params g]
  have e1: "\<forall>msg. fst (jax_execute E tapes device gradient_fn kw n max_diff)
                  \<noteq> Inl (InterfaceUnsupportedError msg)"
    using jax_execute_error [OF assms(1), of E tapes device kw n max_diff] by auto
  have e2: "\<forall>msg. fst (autograd_execute E tapes device gradient_fn kw n max_diff)
                  \<noteq> Inl (InterfaceUnsupportedError msg)"
    using autograd_execute_error [of E tapes device gradient_fn kw n max_diff] by auto
  have e3: "max_diff > 1 \<longrightarrow>
          fst (jax_execute_legacy E tapes gradient_fn kw n max_diff) =
            Inl (InterfaceUnsupportedError
                   ''The JAX interface only supports first order derivatives.'')"
    by (simp add: jax_execute_legacy_def)
  note n1 = autograd_grad_fn_terminal_no_entry [OF assms, of E ans tapes device kw n max_diff
      cache dy]
  note n2 = legacy_grad_fn_terminal_no_entry [OF assms, of E ans tapes device kw n max_diff
      cache dy]
  show ?thesis
    by (intro conjI j j2 a [THEN conjunct1] a [THEN conjunct2] a3 l [THEN conjunct1]
        l [THEN conjunct2] l3 b e1 e2 e3 n1 n2)
qed


lemma demo_jvp_terminal:
  "jax__execute_bwd_execute_wrapper_jvp demo_env [demo_trainable_tape] (LegacyDevice None)
          (Some demo_device_method) [] n max_diff False None [[Tracer 5]] [[3]]
     = (Inr ([JnpArray (NdArray False [1, 7])], [[6]]),
        [ExecuteFn [demo_trainable_tape\<lparr>data := [Numeric 5]\<rparr>] [],
         GradientFn [demo_trainable_tape\<lparr>data := [Numeric 5]\<rparr>] []])"
  unfolding jax_jvp_terminal [OF refl demo_device_method_terminal]
  by (simp add: Let_def jax__compute_jvps_def py_index_def ebind_def
      jax__execute_bwd_execute_wrapper_def set_parameters_on_copy_and_unwrap_def
      jax__set_copy_and_unwrap_tape_def bind_new_parameters_def convert_to_numpy_parameters_def
      unwrap_def demo_trainable_tape_def demo_tape_def demo_env_def demo_device_method_def
      has_counts_def expval_def jax__to_jax_def jax__to_jax_entry_def jax__is_count_result_def
      is_dict_def)

lemma demo_vjp_terminal:
  "autograd_vjp_grad_fn demo_env ([NdArray False [1, 7::int]], []) [demo_trainable_tape]
          (LegacyDevice None) (Some demo_device_method) [] n max_diff None ([[3]], ())
     = (Inr [[6]], None, [GradientFn [demo_trainable_tape\<lparr>data := [Numeric 5]\<rparr>] []])"
  by (simp add: autograd_vjp_grad_fn_def device_shots_def truthy_shots_def use_cache_def
      demo_device_method_def Let_def autograd__compute_vjps_autograd_def py_index_def ebind_def
      shot_vjp_def return_vjps_def sum_of_stack_def demo_env_def demo_trainable_tape_def
      demo_tape_def expval_def convert_to_numpy_parameters_def unwrap_def)

lemma demo_entry_terminal:
  "jax_execute demo_env [demo_tape] (LegacyDevice None) (Some demo_device_method) [] 1 max_diff
     = (Inr [JnpArray (NdArray False [1, 7])], [demo_trainable_tape],
        [Execute 1 max_diff, ExecuteFn [demo_trainable_tape\<lparr>data := [Numeric 5]\<rparr>] []])"
  "autograd_execute demo_env [demo_tape] (LegacyDevice None) (Some demo_device_method) []
       1 max_diff
     = (Inr [Raw (NdArray False [1, 7])], [demo_trainable_tape],
        [Execute 1 max_diff, ExecuteFn [demo_trainable_tape\<lparr>data := [Numeric 5]\<rparr>] []])"
  by (simp_all add: jax_execute_def jax__execute_bwd_def jax__execute_bwd_execute_wrapper_def
      autograd_execute_def autograd__execute_def demo_device_shots demo_annotated
      demo_get_parameters set_parameters_on_copy_and_unwrap_def demo_substituted demo_unwrapped
      demo_backend demo_has_counts demo_trainable_counts Let_def jax__to_jax_def
      jax__to_jax_entry_def jax__is_count_result_def is_dict_def demo_env_def)

text \<open>A device method returning the Jacobian \<open>[2]\<close>, with tangent and cotangent \<open>[3]\<close>, on a
  tape whose one parameter is annotated as trainable, at depth 1 with \<^verbatim>\<open>max_diff = 2\<close>.\<close>

theorem terminal_rule_raises_no_order_error_witness:
  "jax__execute_bwd_execute_wrapper_jvp demo_env [demo_trainable_tape] (LegacyDevice None)
          (Some demo_device_method) [] 1 2 False None [[Tracer 5]] [[3]]
     = (Inr ([JnpArray (NdArray False [1, 7])], [[6]]),
        [ExecuteFn [demo_trainable_tape\<lparr>data := [Numeric 5]\<rparr>] [],
         GradientFn [demo_trainable_tape\<lparr>data := [Numeric 5]\<rparr>] []])
   \<and> autograd_vjp_grad_fn demo_env ([NdArray False [1, 7::int]], []) [demo_trainable_tape]
          (LegacyDevice None) (Some demo_device_method) [] 1 2 None ([[3]], ())
     = (Inr [[6]], None, [GradientFn [demo_trainable_tape\<lparr>data := [Numeric 5]\<rparr>] []])
   \<and> autograd__vjp_legacy_grad_fn demo_env ([NdArray False [1, 7::int]], []) [demo_trainable_tape]
          (LegacyDevice None) (Some demo_device_method) [] 1 2 None ([[3]], ())
     = (Inr [[6]], None, [GradientFn [demo_trainable_tape\<lparr>data := [Numeric 5]\<rparr>] []])
   \<and> jax__execute_legacy_wrapped_exec_bwd demo_env [demo_trainable_tape]
          (Some demo_device_method) [] [[Tracer 5]] [[3]]
     = (Inr [[[6]]], [GradientFn [demo_trainable_tape\<lparr>data := [Numeric 5]\<rparr>] []])
   \<and> fst (jax_execute_legacy demo_env [demo_trainable_tape] (Some demo_device_method) [] 1 2)
     = Inl (InterfaceUnsupportedError
              ''The JAX interface only supports first order derivatives.'')"
proof -
  note t = terminal_rule_raises_no_order_error [OF refl demo_device_method_terminal,
      where E = demo_env and tapes = "[demo_trainable_tape]" and device = "LegacyDevice None"
        and kw = "[]" and n = 1 and max_diff = 2 and hp = False and js = None
        and primals = "[[Tracer 5]]" and tangents = "[[3]]"
        and ans = "([NdArray False [1, 7::int]], [])" and cache = None and dy = "([[3]], ())"
        and hp' = False and vs = None and params = "[[Tracer 5]]" and g = "[[3]]"]
  note c1 = t [THEN conjunct1]
  note c5 = t [THEN conjunct2, THEN conjunct2, THEN conjunct2, THEN conjunct2, THEN conjunct1]
  note r5 = t [THEN conjunct2, THEN conjunct2, THEN conjunct2, THEN conjunct2, THEN conjunct2]
  note c8 = r5 [THEN conjunct2, THEN conjunct2, THEN conjunct1]
  note c9 = r5 [THEN conjunct2, THEN conjunct2, THEN conjunct2, THEN conjunct1]
  note c12 = r5 [THEN conjunct2, THEN conjunct2, THEN conjunct2, THEN conjunct2,
      THEN conjunct2, THEN conjunct2, THEN conjunct1]
  have sp: "set_parameters_on_copy_and_unwrap [demo_trainable_tape] [[Tracer 5]] True
      = [demo_trainable_tape\<lparr>data := [Numeric 5]\<rparr>]"
    by (simp add: set_parameters_on_copy_and_unwrap_def demo_substituted)
  have m: "measurements demo_trainable_tape = [expval]"
      "measurements (demo_trainable_tape\<lparr>data := ps\<rparr>) = [expval]" for ps
    by (simp_all add: demo_trainable_tape_def demo_tape_def)
  have cv: "compute_vjp demo_env [3] [2] = [6]" "compute_vjp_single demo_env [3] [2] = [6]"
      "compute_jvp_single demo_env [3] [2] = [6]" "math_T demo_env v = v"
      "sum_stack demo_env [[6]] = Some [6]" "return_vjps demo_env k w = w"
      "on_batch demo_device_method [t] [] = [[2]]" for v k w t
    by (simp_all add: demo_env_def sum_of_stack_def return_vjps_def demo_device_method_def)
  have a: "jax__execute_bwd_execute_wrapper_jvp demo_env [demo_trainable_tape] (LegacyDevice None)
          (Some demo_device_method) [] 1 2 False None [[Tracer 5]] [[3]]
     = (Inr ([JnpArray (NdArray False [1, 7])], [[6]]),
        [ExecuteFn [demo_trainable_tape\<lparr>data := [Numeric 5]\<rparr>] [],
         GradientFn [demo_trainable_tape\<lparr>data := [Numeric 5]\<rparr>] []])"
    using c1
    by (simp add: Let_def sp m cv jax__compute_jvps_def py_index_def ebind_def
        jax__execute_bwd_execute_wrapper_def demo_backend demo_has_counts demo_trainable_counts
        jax__to_jax_def jax__to_jax_entry_def jax__is_count_result_def is_dict_def)
  have b: "autograd_vjp_grad_fn demo_env ([NdArray False [1, 7::int]], []) [demo_trainable_tape]
          (LegacyDevice None) (Some demo_device_method) [] 1 2 None ([[3]], ())
     = (Inr [[6]], None, [GradientFn [demo_trainable_tape\<lparr>data := [Numeric 5]\<rparr>] []])"
    using c5
    by (simp add: Let_def demo_device_shots demo_device_method_uncached demo_unwrapped m cv
        autograd__compute_vjps_autograd_def py_index_def ebind_def shot_vjp_def)
  have c: "autograd__vjp_legacy_grad_fn demo_env ([NdArray False [1, 7::int]], [])
          [demo_trainable_tape] (LegacyDevice None) (Some demo_device_method) [] 1 2 None
          ([[3]], ())
     = (Inr [[6]], None, [GradientFn [demo_trainable_tape\<lparr>data := [Numeric 5]\<rparr>] []])"
    using c8 by (simp add: Let_def demo_device_method_uncached demo_unwrapped cv)
  have d: "jax__execute_legacy_wrapped_exec_bwd demo_env [demo_trainable_tape]
          (Some demo_device_method) [] [[Tracer 5]] [[3]]
     = (Inr [[[6]]], [GradientFn [demo_trainable_tape\<lparr>data := [Numeric 5]\<rparr>] []])"
    using c9 by (simp add: Let_def demo_unwrapped cv)
  have e: "fst (jax_execute_legacy demo_env [demo_trainable_tape] (Some demo_device_method) []
             1 2)
     = Inl (InterfaceUnsupportedError
              ''The JAX interface only supports first order derivatives.'')"
    using c12 by simp
  from a b c d e show ?thesis by (intro conjI)
qed

text \<open>C4 as stated fails. The entry points \<^verbatim>\<open>execute\<close> of the two modules are called at depth
  1 with \<^verbatim>\<open>max_diff = 2\<close> and a device method as gradient rule, on a tape with one traced
  parameter: they annotate the parameter as trainable and return the result of the backend.
  The tangent rule and the backward rule registered by these calls, on the tape as annotated
  and with its own parameter, return the first-order product \<open>[6]\<close>; no error is raised.\<close>

theorem terminal_rule_returns_at_higher_order:
  "jax_execute demo_env [demo_tape] (LegacyDevice None) (Some demo_device_method) [] 1 2
     = (Inr [JnpArray (NdArray False [1, 7])], [demo_trainable_tape],
        [Execute 1 2, ExecuteFn [demo_trainable_tape\<lparr>data := [Numeric 5]\<rparr>] []])
   \<and> device_shots (LegacyDevice None) [demo_trainable_tape] = Inr (False, None)
   \<and> map get_parameters [demo_trainable_tape] = [[Tracer 5]]
   \<and> fst (jax__execute_bwd_execute_wrapper_jvp demo_env [demo_trainable_tape] (LegacyDevice None)
          (Some demo_device_method) [] 1 2 False None [[Tracer 5]] [[3]])
     = Inr ([JnpArray (NdArray False [1, 7])], [[6]])
   \<and> autograd_execute demo_env [demo_tape] (LegacyDevice None) (Some demo_device_method) [] 1 2
     = (Inr [Raw (NdArray False [1, 7])], [demo_trainable_tape],
        [Execute 1 2, ExecuteFn [demo_trainable_tape\<lparr>data := [Numeric 5]\<rparr>] []])
   \<and> fst (autograd_vjp_grad_fn demo_env ([NdArray False [1, 7::int]], []) [demo_trainable_tape]
          (LegacyDevice None) (Some demo_device_method) [] 1 2 None ([[3]], ()))
     = Inr [[6]]"
  using demo_jvp_terminal [of 1 2] demo_vjp_terminal [of 1 2] demo_entry_terminal [of 2]
    demo_device_shots [of "[demo_trainable_tape]"] demo_get_parameters(1)
  by simp

subsection \<open>The Jacobian cache\<close>


lemma invoke_all_quiet:
  assumes "\<And>dy. snd (G c dy) = (c, [])"
  shows "snd (invoke_all G c dys) = (c, [])"
proof (induction dys)
  case Nil
  show ?case by simp
next
  case (Cons dy dys)
  obtain out where g: "G c dy = (out, c, [])"
    using assms [of dy] by (cases "G c dy") auto
  obtain outs where r: "invoke_all G c dys = (outs, c, [])"
    using Cons.IH by (cases "invoke_all G c dys") auto
  show ?case by (simp add: g r)
qed

lemma invoke_all_first:
  assumes first: "snd (G c0 dy) = (c, evs)" and later: "\<And>dy. snd (G c dy) = (c, [])"
  shows "snd (invoke_all G c0 (dy # dys)) = (c, evs)"
proof -
  obtain out where g: "G c0 dy = (out, c, evs)"
    using first by (cases "G c0 dy") auto
  obtain outs where r: "invoke_all G c dys = (outs, c, [])"
    using invoke_all_quiet [of G c dys, OF later] by (cases "invoke_all G c dys") auto
  show ?thesis by (simp add: g r)
qed

lemma get_jac_cached:
  "autograd_vjp_get_jac_with_caching E tapes device gf kw (Some jacs) = (Inr jacs, Some jacs, [])"
  by (simp add: autograd_vjp_get_jac_with_caching_def)

lemma get_jac_fresh:
  assumes "device_shots device tapes = Inr (hp, vs)"
  shows "\<exists>jacs ts. autograd_vjp_get_jac_with_caching E tapes device gf kw None
           = (Inr jacs, Some jacs, [ExecuteFn ts kw])"
  using assms
  by (cases device; cases tapes)
     (auto simp: autograd_vjp_get_jac_with_caching_def device_shots_def py_index_def ebind_def
        Let_def case_prod_beta)

lemma grad_fn_memoized:
  assumes "gradient_fn = Some gf" "fn_name gf = ''param_shift''" "n = max_diff" "jacs \<noteq> []"
  shows "snd (autograd_vjp_grad_fn E ans tapes device gradient_fn kw n max_diff (Some jacs) dy)
           = (Some jacs, [])"
  using assms
  by (cases "device_shots device tapes")
     (auto simp: autograd_vjp_grad_fn_def Let_def use_cache_param_shift get_jac_cached)

lemma grad_fn_first:
  assumes "gradient_fn = Some gf" "fn_name gf = ''param_shift''" "n = max_diff"
      and "device_shots device tapes = Inr (hp, vs)"
      and "autograd_vjp_get_jac_with_caching E tapes device gf kw None = (Inr jacs, Some jacs, evs)"
      and "jacs \<noteq> []"
  shows "snd (autograd_vjp_grad_fn E ans tapes device gradient_fn kw n max_diff None dy)
           = (Some jacs, evs)"
  using assms
  by (auto simp: autograd_vjp_grad_fn_def Let_def use_cache_param_shift)

lemma grad_fn_device_error:
  assumes "device_shots device tapes = Inl e"
  shows "snd (autograd_vjp_grad_fn E ans tapes device gradient_fn kw n max_diff c dy) = (c, [])"
  using assms by (simp add: autograd_vjp_grad_fn_def Let_def)

lemma vjp_cache_once:
  assumes rule: "gradient_fn = Some gf" "fn_name gf = ''param_shift''" "n = max_diff"
      and ne: "\<forall>jacs c evs. autograd_vjp_get_jac_with_caching E tapes device gf kw None
                  = (Inr jacs, c, evs) \<longrightarrow> jacs \<noteq> []"
  shows "length (backend_calls (snd (snd (invoke_all
            (autograd_vjp_grad_fn E ans tapes device gradient_fn kw n max_diff) None dys)))) \<le> 1"
proof (cases dys)
  case Nil
  then show ?thesis by simp
next
  case (Cons dy rest)
  show ?thesis
  proof (cases "device_shots device tapes")
    case (Inl e)
    have "snd (invoke_all (autograd_vjp_grad_fn E ans tapes device gradient_fn kw n max_diff)
             None dys) = (None, [])"
      by (rule invoke_all_quiet) (rule grad_fn_device_error [OF Inl])
    then show ?thesis by simp
  next
    case (Inr p)
    obtain hp vs where p: "p = (hp, vs)" by (cases p)
    from get_jac_fresh [OF Inr [unfolded p], of E gf kw] obtain jacs ts where
      J: "autograd_vjp_get_jac_with_caching E tapes device gf kw None
            = (Inr jacs, Some jacs, [ExecuteFn ts kw])" by blast
    from ne J have j: "jacs \<noteq> []" by blast
    have "snd (invoke_all (autograd_vjp_grad_fn E ans tapes device gradient_fn kw n max_diff)
             None (dy # rest)) = (Some jacs, [ExecuteFn ts kw])"
      by (rule invoke_all_first)
         (rule grad_fn_first [OF rule Inr [unfolded p] J j], rule grad_fn_memoized [OF rule j])
    with Cons show ?thesis by simp
  qed
qed


lemma legacy_get_jac_cached:
  "autograd__vjp_legacy_get_jac_with_caching E tapes gf kw (Some jacs) = (jacs, Some jacs, [])"
  by (simp add: autograd__vjp_legacy_get_jac_with_caching_def)

lemma backend_calls_all:
  "\<forall>ev \<in> set evs. \<exists>ts kw. ev = ExecuteFn ts kw \<Longrightarrow> backend_calls evs = evs"
  by (induction evs) auto

lemma legacy_get_jac_fresh:
  "\<exists>jacs evs. autograd__vjp_legacy_get_jac_with_caching E tapes gf kw None = (jacs, Some jacs, evs)
      \<and> length jacs = length tapes \<and> length evs = length tapes \<and> backend_calls evs = evs"
proof -
  let ?rounds = "map (\<lambda>t. let (g_tapes, fn) = on_tape gf t NoShotsKw kw;
                                     unwrapped_tapes = map convert_to_numpy_parameters g_tapes;
                                     (res, _) = execute_fn E unwrapped_tapes kw
                                 in (fn res, ExecuteFn unwrapped_tapes kw)) tapes"
  have "backend_calls (map snd ?rounds) = map snd ?rounds"
    by (rule backend_calls_all) (auto simp: Let_def case_prod_beta)
  then show ?thesis
    by (simp add: autograd__vjp_legacy_get_jac_with_caching_def Let_def)
qed

lemma legacy_grad_fn_memoized:
  assumes "gradient_fn = Some gf" "fn_name gf = ''param_shift''" "n = max_diff" "jacs \<noteq> []"
  shows "snd (autograd__vjp_legacy_grad_fn E ans tapes device gradient_fn kw n max_diff
                (Some jacs) dy) = (Some jacs, [])"
  using assms
  by (simp add: autograd__vjp_legacy_grad_fn_def Let_def use_cache_param_shift
      legacy_get_jac_cached)

lemma legacy_grad_fn_first:
  assumes "gradient_fn = Some gf" "fn_name gf = ''param_shift''" "n = max_diff"
      and "autograd__vjp_legacy_get_jac_with_caching E tapes gf kw None = (jacs, Some jacs, evs)"
      and "jacs \<noteq> []"
  shows "snd (autograd__vjp_legacy_grad_fn E ans tapes device gradient_fn kw n max_diff None dy)
           = (Some jacs, evs)"
  using assms
  by (simp add: autograd__vjp_legacy_grad_fn_def Let_def use_cache_param_shift)

lemma legacy_cache_per_tape:
  assumes rule: "gradient_fn = Some gf" "fn_name gf = ''param_shift''" "n = max_diff"
      and ne: "tapes \<noteq> []"
  shows "length (backend_calls (snd (snd (invoke_all
            (autograd__vjp_legacy_grad_fn E ans tapes device gradient_fn kw n max_diff) None dys))))
         = (if dys = [] then 0 else length tapes)"
proof (cases dys)
  case Nil
  then show ?thesis by simp
next
  case (Cons dy rest)
  from legacy_get_jac_fresh [of E tapes gf kw] obtain jacs evs where
    J: "autograd__vjp_legacy_get_jac_with_caching E tapes gf kw None = (jacs, Some jacs, evs)"
    and l: "length jacs = length tapes" "length evs = length tapes" "backend_calls evs = evs"
    by blast
  from l ne have j: "jacs \<noteq> []" by auto
  have "snd (invoke_all (autograd__vjp_legacy_grad_fn E ans tapes device gradient_fn kw n max_diff)
             None (dy # rest)) = (Some jacs, evs)"
    by (rule invoke_all_first)
       (rule legacy_grad_fn_first [OF rule J j], rule legacy_grad_fn_memoized [OF rule j])
  with Cons l show ?thesis by simp
qed

lemma invoke_all_memoized:
  assumes "\<And>dy. G c dy = (h dy, c, [])"
  shows "invoke_all G c dys = (map h dys, c, [])"
  by (induction dys) (simp_all add: assms)

lemma invoke_all_populating:
  assumes "G c0 dy = (h dy, c, evs)" and "\<And>dy. G c dy = (h dy, c, [])"
  shows "invoke_all G c0 (dy # dys) = (map h (dy # dys), c, evs)"
  by (simp add: assms(1) invoke_all_memoized [of G c h, OF assms(2)])

lemma grad_fn_memoized_exact:
  assumes "gradient_fn = Some gf" "fn_name gf = ''param_shift''" "n = max_diff" "jacs \<noteq> []"
      and "device_shots device tapes = Inr (hp, vs)"
  shows "autograd_vjp_grad_fn E ans tapes device gradient_fn kw n max_diff (Some jacs) dy =
           (ebind (autograd__compute_vjps_autograd E jacs (fst dy)
                     (map (\<lambda>tape. length (measurements tape) > 1) tapes) hp)
              (\<lambda>vjps. Inr (return_vjps E n vjps)),
            Some jacs, [])"
  using assms
  by (simp add: autograd_vjp_grad_fn_def Let_def use_cache_param_shift get_jac_cached)

lemma grad_fn_first_exact:
  assumes "gradient_fn = Some gf" "fn_name gf = ''param_shift''" "n = max_diff"
      and "device_shots device tapes = Inr (hp, vs)"
      and "autograd_vjp_get_jac_with_caching E tapes device gf kw None = (Inr jacs, Some jacs, evs)"
      and "jacs \<noteq> []"
  shows "autograd_vjp_grad_fn E ans tapes device gradient_fn kw n max_diff None dy =
           (ebind (autograd__compute_vjps_autograd E jacs (fst dy)
                     (map (\<lambda>tape. length (measurements tape) > 1) tapes) hp)
              (\<lambda>vjps. Inr (return_vjps E n vjps)),
            Some jacs, evs)"
  using assms
  by (simp add: autograd_vjp_grad_fn_def Let_def use_cache_param_shift)

lemma vjp_cache_populated:
  assumes rule: "gradient_fn = Some gf" "fn_name gf = ''param_shift''" "n = max_diff"
      and dev: "device_shots device tapes = Inr (hp, vs)"
      and sv: "sv = (case device of
                  ExperimentalDevice \<Rightarrow>
                    if has_partitioned_shots (tapes ! 0) then Some (shot_vector (tapes ! 0))
                    else None
                | LegacyDevice s \<Rightarrow> s)"
      and g: "g = map_batch_transform E (\<lambda>tape. on_tape gf tape (ShotsKw sv) kw) tapes"
      and u: "unwrapped_tapes = map convert_to_numpy_parameters (fst g)"
      and J: "jacs = snd g (fst (execute_fn E unwrapped_tapes kw))"
      and ne: "jacs \<noteq> []"
  shows "invoke_all (autograd_vjp_grad_fn E ans tapes device gradient_fn kw n max_diff) None
           (dy # dys) =
         (map (\<lambda>dy. ebind (autograd__compute_vjps_autograd E jacs (fst dy)
                              (map (\<lambda>tape. length (measurements tape) > 1) tapes) hp)
                       (\<lambda>vjps. Inr (return_vjps E n vjps)))
              (dy # dys),
          Some jacs, [ExecuteFn unwrapped_tapes kw])"
proof -
  have f: "autograd_vjp_get_jac_with_caching E tapes device gf kw None
             = (Inr jacs, Some jacs, [ExecuteFn unwrapped_tapes kw])"
    unfolding get_jac_fresh_exact [OF dev] sv g u J by (simp add: Let_def)
  show ?thesis
    by (rule invoke_all_populating)
       (rule grad_fn_first_exact [OF rule dev f ne], rule grad_fn_memoized_exact [OF rule ne dev])
qed

lemma legacy_get_jac_fresh_exact:
  "autograd__vjp_legacy_get_jac_with_caching E tapes gf kw None =
     (let jacs = map (\<lambda>t. snd (on_tape gf t NoShotsKw kw)
                          (fst (execute_fn E (map convert_to_numpy_parameters
                                                (fst (on_tape gf t NoShotsKw kw))) kw))) tapes
      in (jacs, Some jacs,
          map (\<lambda>t. ExecuteFn (map convert_to_numpy_parameters (fst (on_tape gf t NoShotsKw kw))) kw)
              tapes))"
  by (simp add: autograd__vjp_legacy_get_jac_with_caching_def Let_def case_prod_beta comp_def)

lemma legacy_grad_fn_memoized_exact:
  assumes "gradient_fn = Some gf" "fn_name gf = ''param_shift''" "n = max_diff" "jacs \<noteq> []"
  shows "autograd__vjp_legacy_grad_fn E ans tapes device gradient_fn kw n max_diff (Some jacs) dy =
           (Inr (return_vjps E n (map (\<lambda>(d, jac). compute_vjp E d jac)
                                    (zip (map (math_T E) (fst dy)) jacs))),
            Some jacs, [])"
  using assms
  by (simp add: autograd__vjp_legacy_grad_fn_def Let_def use_cache_param_shift
      legacy_get_jac_cached)

lemma legacy_grad_fn_first_exact:
  assumes "gradient_fn = Some gf" "fn_name gf = ''param_shift''" "n = max_diff"
      and "autograd__vjp_legacy_get_jac_with_caching E tapes gf kw None = (jacs, Some jacs, evs)"
      and "jacs \<noteq> []"
  shows "autograd__vjp_legacy_grad_fn E ans tapes device gradient_fn kw n max_diff None dy =
           (Inr (return_vjps E n (map (\<lambda>(d, jac). compute_vjp E d jac)
                                    (zip (map (math_T E) (fst dy)) jacs))),
            Some jacs, evs)"
  using assms
  by (simp add: autograd__vjp_legacy_grad_fn_def Let_def use_cache_param_shift)

lemma legacy_cache_populated:
  assumes rule: "gradient_fn = Some gf" "fn_name gf = ''param_shift''" "n = max_diff"
      and ne: "tapes \<noteq> []"
      and J: "jacs = map (\<lambda>t. snd (on_tape gf t NoShotsKw kw)
                          (fst (execute_fn E (map convert_to_numpy_parameters
                                                (fst (on_tape gf t NoShotsKw kw))) kw))) tapes"
  shows "invoke_all (autograd__vjp_legacy_grad_fn E ans tapes device gradient_fn kw n max_diff)
           None (dy # dys) =
         (map (\<lambda>dy. Inr (return_vjps E n (map (\<lambda>(d, jac). compute_vjp E d jac)
                                            (zip (map (math_T E) (fst dy)) jacs))))
              (dy # dys),
          Some jacs,
          map (\<lambda>t. ExecuteFn (map convert_to_numpy_parameters (fst (on_tape gf t NoShotsKw kw))) kw)
              tapes)"
proof -
  have f: "autograd__vjp_legacy_get_jac_with_caching E tapes gf kw None
             = (jacs, Some jacs,
                map (\<lambda>t. ExecuteFn (map convert_to_numpy_parameters
                                      (fst (on_tape gf t NoShotsKw kw))) kw) tapes)"
    unfolding legacy_get_jac_fresh_exact J by (simp add: Let_def)
  from ne J have j: "jacs \<noteq> []" by simp
  show ?thesis
    by (rule invoke_all_populating)
       (rule legacy_grad_fn_first_exact [OF rule f j], rule legacy_grad_fn_memoized_exact [OF rule j])
qed

text \<open>C3, as the code has it. With a rule named \<^verbatim>\<open>param_shift\<close> and \<^verbatim>\<open>_n == max_diff\<close>: in
  \<^verbatim>\<open>vjp\<close>, over any number of invocations of the returned \<^verbatim>\<open>grad_fn\<close> on a fresh cache, the
  backend is called at most once, provided the Jacobian it yields is a non-empty list (an
  empty one is false in \<^verbatim>\<open>if jacs\<close>, and the rule goes on to the gradient tapes); an
  invocation that finds a non-empty Jacobian in the cache causes no event and leaves the
  cache as it is. In \<^verbatim>\<open>_vjp_legacy\<close> the same holds for the later invocations, but the first
  invocation calls the backend once for each tape of the (non-empty) batch.

  What the invocations do, in full. In \<^verbatim>\<open>vjp\<close>, when the shots of the device can be read and
  the Jacobian \<open>jacs\<close> that one backend call on the unwrapped gradient tapes of the whole batch
  yields is non-empty: one or more invocations on a fresh cache leave \<open>jacs\<close> in the cache,
  every one of them (the first and the later ones) returns the contraction of its own
  cotangents with that same \<open>jacs\<close>, and the events of all of them together are that one
  backend call. An invocation that finds a non-empty \<open>jacs\<close> in the cache returns the
  contraction with it, leaves the cache and causes no event. In \<^verbatim>\<open>_vjp_legacy\<close>, on a
  non-empty batch, the same holds with the Jacobians that one backend call per tape yields,
  and the events are these calls, one for each tape in order.\<close>

theorem jacobian_cache_single_evaluation:
  assumes "gradient_fn = Some gf" and "fn_name gf = ''param_shift''" and "n = max_diff"
  shows "((\<forall>jacs c evs. autograd_vjp_get_jac_with_caching E tapes device gf kw None
                  = (Inr jacs, c, evs) \<longrightarrow> jacs \<noteq> []) \<longrightarrow>
          length (backend_calls (snd (snd (invoke_all
            (autograd_vjp_grad_fn E ans tapes device gradient_fn kw n max_diff) None dys)))) \<le> 1)
       \<and> (jacs \<noteq> [] \<longrightarrow>
          snd (autograd_vjp_grad_fn E ans tapes device gradient_fn kw n max_diff (Some jacs) dy)
            = (Some jacs, []))
       \<and> (tapes \<noteq> [] \<longrightarrow>
          length (backend_calls (snd (snd (invoke_all
            (autograd__vjp_legacy_grad_fn E ans tapes device gradient_fn kw n max_diff) None dys))))
          = (if dys = [] then 0 else length tapes))
       \<and> (jacs \<noteq> [] \<longrightarrow>
          snd (autograd__vjp_legacy_grad_fn E ans tapes device gradient_fn kw n max_diff
                 (Some jacs) dy) = (Some jacs, []))
       \<and> (device_shots device tapes = Inr (hp, vs) \<longrightarrow>
          (let sv = (case device of
                       ExperimentalDevice \<Rightarrow>
                         if has_partitioned_shots (tapes ! 0) then Some (shot_vector (tapes ! 0))
                         else None
                     | LegacyDevice s \<Rightarrow> s);
               g = map_batch_transform E (\<lambda>tape. on_tape gf tape (ShotsKw sv) kw) tapes;
               unwrapped_tapes = map convert_to_numpy_parameters (fst g);
               fresh = snd g (fst (execute_fn E unwrapped_tapes kw))
           in fresh \<noteq> [] \<longrightarrow>
              invoke_all (autograd_vjp_grad_fn E ans tapes device gradient_fn kw n max_diff) None
                (dy # dys) =
              (map (\<lambda>dy. ebind (autograd__compute_vjps_autograd E fresh (fst dy)
                                   (map (\<lambda>tape. length (measurements tape) > 1) tapes) hp)
                            (\<lambda>vjps. Inr (return_vjps E n vjps)))
                   (dy # dys),
               Some fresh, [ExecuteFn unwrapped_tapes kw])))
       \<and> (device_shots device tapes = Inr (hp, vs) \<and> jacs \<noteq> [] \<longrightarrow>
          autograd_vjp_grad_fn E ans tapes device gradient_fn kw n max_diff (Some jacs) dy =
            (ebind (autograd__compute_vjps_autograd E jacs (fst dy)
                      (map (\<lambda>tape. length (measurements tape) > 1) tapes) hp)
               (\<lambda>vjps. Inr (return_vjps E n vjps)),
             Some jacs, []))
       \<and> (tapes \<noteq> [] \<longrightarrow>
          (let fresh = map (\<lambda>t. snd (on_tape gf t NoShotsKw kw)
                             (fst (execute_fn E (map convert_to_numpy_parameters
                                                   (fst (on_tape gf t NoShotsKw kw))) kw))) tapes
           in invoke_all (autograd__vjp_legacy_grad_fn E ans tapes device gradient_fn kw n max_diff)
                None (dy # dys) =
              (map (\<lambda>dy. Inr (return_vjps E n (map (\<lambda>(d, jac). compute_vjp E d jac)
                                                 (zip (map (math_T E) (fst dy)) fresh))))
                   (dy # dys),
               Some fresh,
               map (\<lambda>t. ExecuteFn (map convert_to_numpy_parameters
                                     (fst (on_tape gf t NoShotsKw kw))) kw) tapes)))
       \<and> (jacs \<noteq> [] \<longrightarrow>
          autograd__vjp_legacy_grad_fn E ans tapes device gradient_fn kw n max_diff (Some jacs) dy =
            (Inr (return_vjps E n (map (\<lambda>(d, jac). compute_vjp E d jac)
                                     (zip (map (math_T E) (fst dy)) jacs))),
             Some jacs, []))"
proof -
  have c1: "(\<forall>jacs c evs. autograd_vjp_get_jac_with_caching E tapes device gf kw None
                  = (Inr jacs, c, evs) \<longrightarrow> jacs \<noteq> []) \<longrightarrow>
          length (backend_calls (snd (snd (invoke_all
            (autograd_vjp_grad_fn E ans tapes device gradient_fn kw n max_diff) None dys)))) \<le> 1"
    using vjp_cache_once [OF assms, of E tapes device kw ans dys] by blast
  have c2: "jacs \<noteq> [] \<longrightarrow>
          snd (autograd_vjp_grad_fn E ans tapes device gradient_fn kw n max_diff (Some jacs) dy)
            = (Some jacs, [])"
    using grad_fn_memoized [OF assms, of jacs E ans tapes device kw dy] by blast
  have c3: "tapes \<noteq> [] \<longrightarrow>
          length (backend_calls (snd (snd (invoke_all
            (autograd__vjp_legacy_grad_fn E ans tapes device gradient_fn kw n max_diff) None dys))))
          = (if dys = [] then 0 else length tapes)"
    using legacy_cache_per_tape [OF assms, of tapes E ans device kw dys] by blast
  have c4: "jacs \<noteq> [] \<longrightarrow>
          snd (autograd__vjp_legacy_grad_fn E ans tapes device gradient_fn kw n max_diff
                 (Some jacs) dy) = (Some jacs, [])"
    using legacy_grad_fn_memoized [OF assms, of jacs E ans tapes device kw dy] by blast
  have c5: "device_shots device tapes = Inr (hp, vs) \<longrightarrow>
          (let sv = (case device of
                       ExperimentalDevice \<Rightarrow>
                         if has_partitioned_shots (tapes ! 0) then Some (shot_vector (tapes ! 0))
                         else None
                     | LegacyDevice s \<Rightarrow> s);
               g = map_batch_transform E (\<lambda>tape. on_tape gf tape (ShotsKw sv) kw) tapes;
               unwrapped_tapes = map convert_to_numpy_parameters (fst g);
               fresh = snd g (fst (execute_fn E unwrapped_tapes kw))
           in fresh \<noteq> [] \<longrightarrow>
              invoke_all (autograd_vjp_grad_fn E ans tapes device gradient_fn kw n max_diff) None
                (dy # dys) =
              (map (\<lambda>dy. ebind (autograd__compute_vjps_autograd E fresh (fst dy)
                                   (map (\<lambda>tape. length (measurements tape) > 1) tapes) hp)
                            (\<lambda>vjps. Inr (return_vjps E n vjps)))
                   (dy # dys),
               Some fresh, [ExecuteFn unwrapped_tapes kw]))"
    unfolding Let_def
    by (intro impI) (rule vjp_cache_populated [OF assms _ refl refl refl refl])
  have c6: "device_shots device tapes = Inr (hp, vs) \<and> jacs \<noteq> [] \<longrightarrow>
          autograd_vjp_grad_fn E ans tapes device gradient_fn kw n max_diff (Some jacs) dy =
            (ebind (autograd__compute_vjps_autograd E jacs (fst dy)
                      (map (\<lambda>tape. length (measurements tape) > 1) tapes) hp)
               (\<lambda>vjps. Inr (return_vjps E n vjps)),
             Some jacs, [])"
    using grad_fn_memoized_exact [OF assms, of jacs device tapes hp vs E ans kw dy] by blast
  have c7: "tapes \<noteq> [] \<longrightarrow>
          (let fresh = map (\<lambda>t. snd (on_tape gf t NoShotsKw kw)
                             (fst (execute_fn E (map convert_to_numpy_parameters
                                                   (fst (on_tape gf t NoShotsKw kw))) kw))) tapes
           in invoke_all (autograd__vjp_legacy_grad_fn E ans tapes device gradient_fn kw n max_diff)
                None (dy # dys) =
              (map (\<lambda>dy. Inr (return_vjps E n (map (\<lambda>(d, jac). compute_vjp E d jac)
                                                 (zip (map (math_T E) (fst dy)) fresh))))
                   (dy # dys),
               Some fresh,
               map (\<lambda>t. ExecuteFn (map convert_to_numpy_parameters
                                     (fst (on_tape gf t NoShotsKw kw))) kw) tapes))"
    unfolding Let_def
    by (intro impI) (rule legacy_cache_populated [OF assms _ refl])
  have c8: "jacs \<noteq> [] \<longrightarrow>
          autograd__vjp_legacy_grad_fn E ans tapes device gradient_fn kw n max_diff (Some jacs) dy =
            (Inr (return_vjps E n (map (\<lambda>(d, jac). compute_vjp E d jac)
                                     (zip (map (math_T E) (fst dy)) jacs))),
             Some jacs, [])"
    using legacy_grad_fn_memoized_exact [OF assms, of jacs E ans tapes device kw dy] by blast
  show ?thesis
    by (intro conjI c1 c2 c3 c4 c5 c6 c7 c8)
qed


lemma demo_get_jac:
  "autograd_vjp_get_jac_with_caching demo_env [demo_trainable_tape, demo_trainable_tape]
      (LegacyDevice None) demo_transform [] None
   = (Inr [[4], [4]], Some [[4], [4]],
      [ExecuteFn (replicate 4 (demo_trainable_tape\<lparr>data := [Numeric 5]\<rparr>)) []])"
  by (simp add: autograd_vjp_get_jac_with_caching_def demo_env_def demo_transform_def Let_def
      convert_to_numpy_parameters_def unwrap_def demo_trainable_tape_def demo_tape_def
      numeral_eq_Suc)

text \<open>Two tapes and two invocations at depth 1 with \<^verbatim>\<open>max_diff = 1\<close>: one backend call
  through \<^verbatim>\<open>vjp\<close>, two through \<^verbatim>\<open>_vjp_legacy\<close>; the cache holds the Jacobian afterwards and
  both invocations have contracted their cotangents with it.\<close>

theorem jacobian_cache_single_evaluation_witness:
  "length (backend_calls (snd (snd (invoke_all
      (autograd_vjp_grad_fn demo_env ([()], []) [demo_trainable_tape, demo_trainable_tape]
         (LegacyDevice None) (Some demo_transform) [] 1 1)
      None [([[1], [1]], ()), ([[3], [4]], ())])))) \<le> 1
   \<and> snd (autograd_vjp_grad_fn demo_env ([()], []) [demo_trainable_tape, demo_trainable_tape]
         (LegacyDevice None) (Some demo_transform) [] 1 1 (Some [[4], [4]]) ([[3], [4]], ()))
       = (Some [[4], [4]], [])
   \<and> length (backend_calls (snd (snd (invoke_all
      (autograd__vjp_legacy_grad_fn demo_env ([()], []) [demo_trainable_tape, demo_trainable_tape]
         (LegacyDevice None) (Some demo_transform) [] 1 1)
      None [([[1], [1]], ()), ([[3], [4]], ())])))) = 2
   \<and> invoke_all
      (autograd_vjp_grad_fn demo_env ([()], []) [demo_trainable_tape, demo_trainable_tape]
         (LegacyDevice None) (Some demo_transform) [] 1 1)
      None [([[1], [1]], ()), ([[3], [4]], ())]
     = ([Inr [[4], [4]], Inr [[12], [16]]], Some [[4], [4]],
        [ExecuteFn (replicate 4 (demo_trainable_tape\<lparr>data := [Numeric 5]\<rparr>)) []])
   \<and> autograd_vjp_grad_fn demo_env ([()], []) [demo_trainable_tape, demo_trainable_tape]
         (LegacyDevice None) (Some demo_transform) [] 1 1 (Some [[4], [4]]) ([[3], [4]], ())
     = (Inr [[12], [16]], Some [[4], [4]], [])
   \<and> invoke_all
      (autograd__vjp_legacy_grad_fn demo_env ([()], []) [demo_trainable_tape, demo_trainable_tape]
         (LegacyDevice None) (Some demo_transform) [] 1 1)
      None [([[1], [1]], ()), ([[3], [4]], ())]
     = ([Inr [[2], [2]], Inr [[6], [8]]], Some [[2], [2]],
        [ExecuteFn (replicate 2 (demo_trainable_tape\<lparr>data := [Numeric 5]\<rparr>)) [],
         ExecuteFn (replicate 2 (demo_trainable_tape\<lparr>data := [Numeric 5]\<rparr>)) []])
   \<and> autograd__vjp_legacy_grad_fn demo_env ([()], []) [demo_trainable_tape, demo_trainable_tape]
         (LegacyDevice None) (Some demo_transform) [] 1 1 (Some [[2], [2]]) ([[3], [4]], ())
     = (Inr [[6], [8]], Some [[2], [2]], [])"
proof -
  note t = jacobian_cache_single_evaluation [where gradient_fn = "Some demo_transform"
      and gf = demo_transform and n = 1 and max_diff = 1 and E = demo_env
      and tapes = "[demo_trainable_tape, demo_trainable_tape]" and device = "LegacyDevice None"
      and kw = "[]" and ans = "([()], [])" and hp = False and vs = None,
      OF refl demo_transform_name refl]
  note tA = t [where dys = "[([[1], [1]], ()), ([[3], [4]], ())]" and dy = "([[3], [4]], ())"
      and jacs = "[[4], [4]]"]
  note tB = t [where dys = "[([[3], [4]], ())]" and dy = "([[1], [1]], ())"
      and jacs = "[[2], [2]]"]
  note tC = t [where dys = "[]" and dy = "([[3], [4]], ())" and jacs = "[[2], [2]]"]
  have m: "measurements demo_trainable_tape = [expval]"
    by (simp add: demo_trainable_tape_def demo_tape_def)
  have cn: "autograd__compute_vjps_autograd demo_env [[a], [b]] [[c], [d]] [False, False] False
      = Inr [[c * a], [d * b]]" for a b c d :: int
    by (simp add: autograd__compute_vjps_autograd_def py_index_def ebind_def shot_vjp_def
        demo_cv sum_of_stack_def upt_rec)
  from tA [THEN conjunct1] demo_get_jac
  have a: "length (backend_calls (snd (snd (invoke_all
      (autograd_vjp_grad_fn demo_env ([()], []) [demo_trainable_tape, demo_trainable_tape]
         (LegacyDevice None) (Some demo_transform) [] 1 1)
      None [([[1], [1]], ()), ([[3], [4]], ())])))) \<le> 1"
    by simp
  from tA [THEN conjunct2, THEN conjunct1]
  have b: "snd (autograd_vjp_grad_fn demo_env ([()], []) [demo_trainable_tape, demo_trainable_tape]
         (LegacyDevice None) (Some demo_transform) [] 1 1 (Some [[4], [4]]) ([[3], [4]], ()))
       = (Some [[4], [4]], [])"
    by simp
  from tA [THEN conjunct2, THEN conjunct2, THEN conjunct1]
  have c: "length (backend_calls (snd (snd (invoke_all
      (autograd__vjp_legacy_grad_fn demo_env ([()], []) [demo_trainable_tape, demo_trainable_tape]
         (LegacyDevice None) (Some demo_transform) [] 1 1)
      None [([[1], [1]], ()), ([[3], [4]], ())])))) = 2"
    by simp
  note r4 = conjunct2 [OF conjunct2 [OF conjunct2 [OF conjunct2]]]
  from tB [THEN r4, THEN conjunct1]
  have d: "invoke_all
      (autograd_vjp_grad_fn demo_env ([()], []) [demo_trainable_tape, demo_trainable_tape]
         (LegacyDevice None) (Some demo_transform) [] 1 1)
      None [([[1], [1]], ()), ([[3], [4]], ())]
     = ([Inr [[4], [4]], Inr [[12], [16]]], Some [[4], [4]],
        [ExecuteFn (replicate 4 (demo_trainable_tape\<lparr>data := [Numeric 5]\<rparr>)) []])"
    by (simp add: Let_def demo_device_shots demo_batch_transform demo_on_tape demo_unwrapped
        m cn ebind_def demo_cv demo_backend numeral_eq_Suc del: invoke_all.simps)
  from tA [THEN r4, THEN conjunct2, THEN conjunct1]
  have e: "autograd_vjp_grad_fn demo_env ([()], []) [demo_trainable_tape, demo_trainable_tape]
         (LegacyDevice None) (Some demo_transform) [] 1 1 (Some [[4], [4]]) ([[3], [4]], ())
     = (Inr [[12], [16]], Some [[4], [4]], [])"
    by (simp add: demo_device_shots m cn ebind_def demo_cv)
  from tB [THEN r4, THEN conjunct2, THEN conjunct2, THEN conjunct1]
  have f: "invoke_all
      (autograd__vjp_legacy_grad_fn demo_env ([()], []) [demo_trainable_tape, demo_trainable_tape]
         (LegacyDevice None) (Some demo_transform) [] 1 1)
      None [([[1], [1]], ()), ([[3], [4]], ())]
     = ([Inr [[2], [2]], Inr [[6], [8]]], Some [[2], [2]],
        [ExecuteFn (replicate 2 (demo_trainable_tape\<lparr>data := [Numeric 5]\<rparr>)) [],
         ExecuteFn (replicate 2 (demo_trainable_tape\<lparr>data := [Numeric 5]\<rparr>)) []])"
    by (simp add: Let_def demo_on_tape demo_unwrapped demo_backend demo_cv numeral_eq_Suc
        del: invoke_all.simps)
  from tC [THEN r4, THEN conjunct2, THEN conjunct2, THEN conjunct2]
  have g: "autograd__vjp_legacy_grad_fn demo_env ([()], []) [demo_trainable_tape, demo_trainable_tape]
         (LegacyDevice None) (Some demo_transform) [] 1 1 (Some [[2], [2]]) ([[3], [4]], ())
     = (Inr [[6], [8]], Some [[2], [2]], [])"
    by (simp add: demo_cv)
  from a b c d e f g show ?thesis by (intro conjI)
qed

text \<open>C3 as stated fails on \<^verbatim>\<open>_vjp_legacy\<close>: one invocation of \<^verbatim>\<open>grad_fn\<close> on a batch of two
  tapes calls the backend twice for the Jacobian, once with the gradient tapes of each
  tape.\<close>

theorem legacy_cache_executes_per_tape:
  "invoke_all
      (autograd__vjp_legacy_grad_fn demo_env ([()], []) [demo_trainable_tape, demo_trainable_tape]
         (LegacyDevice None) (Some demo_transform) [] 1 1)
      None [([[1], [1]], ())]
   = ([Inr [[2], [2]]], Some [[2], [2]],
      [ExecuteFn [demo_trainable_tape\<lparr>data := [Numeric 5]\<rparr>,
                  demo_trainable_tape\<lparr>data := [Numeric 5]\<rparr>] [],
       ExecuteFn [demo_trainable_tape\<lparr>data := [Numeric 5]\<rparr>,
                  demo_trainable_tape\<lparr>data := [Numeric 5]\<rparr>] []])
   \<and> backend_calls (snd (snd (invoke_all
      (autograd__vjp_legacy_grad_fn demo_env ([()], []) [demo_trainable_tape, demo_trainable_tape]
         (LegacyDevice None) (Some demo_transform) [] 1 1)
      None [([[1], [1]], ())])))
   = [ExecuteFn [demo_trainable_tape\<lparr>data := [Numeric 5]\<rparr>,
                 demo_trainable_tape\<lparr>data := [Numeric 5]\<rparr>] [],
      ExecuteFn [demo_trainable_tape\<lparr>data := [Numeric 5]\<rparr>,
                 demo_trainable_tape\<lparr>data := [Numeric 5]\<rparr>] []]"
  by (simp add: autograd__vjp_legacy_grad_fn_def autograd__vjp_legacy_get_jac_with_caching_def
      use_cache_def demo_transform_def demo_env_def Let_def return_vjps_def
      convert_to_numpy_parameters_def unwrap_def demo_trainable_tape_def demo_tape_def)

end
